theory Spec2Isabelle
  imports Main "HOL-Library.AList"
begin

section \<open>Python values and strings\<close>

text \<open>
  The tools of \<^verbatim>\<open>lldb_mcp.py\<close> return either a string or a dictionary whose values are
  \<^verbatim>\<open>None\<close>, booleans, integers or strings. A dictionary is an association list in
  insertion order, as Python keeps it; every literal of the source has distinct keys.
\<close>

datatype pyval = PNone | PBool bool | PInt int | PStr string

type_synonym py_dict = "(string \<times> pyval) list"

type_synonym str_dict = "(string \<times> string) list"

text \<open>
  The exceptions that can leave a tool: an index out of range, a call that does not fit
  the parameters of the function, and the error of the console when it refuses a text.
\<close>

datatype py_error = IndexError | TypeError | MarkupError string

text \<open>\<^verbatim>\<open>d.get(k, default)\<close> and \<^verbatim>\<open>k in d\<close>.\<close>

definition dict_get :: "(string \<times> 'v) list \<Rightarrow> string \<Rightarrow> 'v \<Rightarrow> 'v" where
  "dict_get d k dflt = (case map_of d k of None \<Rightarrow> dflt | Some v \<Rightarrow> v)"

definition has_key :: "(string \<times> 'v) list \<Rightarrow> string \<Rightarrow> bool" where
  "has_key d k = (case map_of d k of None \<Rightarrow> False | Some v \<Rightarrow> True)"

text \<open>\<^verbatim>\<open>xs[i]\<close> raises \<^verbatim>\<open>IndexError\<close> out of range.\<close>

definition getitem :: "'a list \<Rightarrow> nat \<Rightarrow> py_error + 'a" where
  "getitem xs i = (if i < length xs then Inr (xs ! i) else Inl IndexError)"

text \<open>\<^verbatim>\<open>s.split(sep)\<close> for a one-character separator: the pieces between the separators.\<close>

fun split_str :: "char \<Rightarrow> string \<Rightarrow> string list" where
  "split_str sep [] = [[]]"
| "split_str sep (c # cs) =
     (if c = sep then [] # split_str sep cs
      else (case split_str sep cs of
              [] \<Rightarrow> [[c]]
            | p # ps \<Rightarrow> (c # p) # ps))"

text \<open>\<^verbatim>\<open>s.startswith(p)\<close>.\<close>

fun startswith :: "string \<Rightarrow> string \<Rightarrow> bool" where
  "startswith [] s = True"
| "startswith (p # ps) [] = False"
| "startswith (p # ps) (c # cs) = (p = c \<and> startswith ps cs)"

text \<open>\<^verbatim>\<open>needle in hay\<close> on strings: \<open>needle\<close> occurs as a contiguous substring.\<close>

fun str_contains :: "string \<Rightarrow> string \<Rightarrow> bool" where
  "str_contains needle [] = (needle = [])"
| "str_contains needle (c # cs) = (startswith needle (c # cs) \<or> str_contains needle cs)"

text \<open>An f-string prints \<^verbatim>\<open>None\<close> as the four letters.\<close>

definition fmt_opt :: "string option \<Rightarrow> string" where
  "fmt_opt v = (case v of None \<Rightarrow> ''None'' | Some s \<Rightarrow> s)"

definition opt_str :: "string option \<Rightarrow> pyval" where
  "opt_str v = (case v of None \<Rightarrow> PNone | Some s \<Rightarrow> PStr s)"

definition apostrophe :: string where
  "apostrophe = [CHR 0x27]"

text \<open>
  Calling a Python function with \<^verbatim>\<open>*args\<close> and \<^verbatim>\<open>**kwargs\<close>: the parameters, each with its
  default if it has one, take the positional arguments in order and then the keyword
  arguments by name. Too many positional arguments, a keyword that names no parameter or
  one already given by position, and a parameter left without a value raise
  \<^verbatim>\<open>TypeError\<close>. Every argument is a string, as the annotations of the tools say.
\<close>

fun bind_params ::
  "(string \<times> string option) list \<Rightarrow> string list \<Rightarrow> (string \<times> string) list
     \<Rightarrow> py_error + string list" where
  "bind_params [] [] kwargs = (if kwargs = [] then Inr [] else Inl TypeError)"
| "bind_params [] (a # args) kwargs = Inl TypeError"
| "bind_params ((name, dflt) # params) (a # args) kwargs =
     (if has_key kwargs name then Inl TypeError
      else (case bind_params params args kwargs of
              Inl e \<Rightarrow> Inl e
            | Inr vs \<Rightarrow> Inr (a # vs)))"
| "bind_params ((name, dflt) # params) [] kwargs =
     (case (case map_of kwargs name of Some v \<Rightarrow> Some v | None \<Rightarrow> dflt) of
        None \<Rightarrow> Inl TypeError
      | Some v \<Rightarrow>
          (case bind_params params [] (filter (\<lambda>(k, x). k \<noteq> name) kwargs) of
             Inl e \<Rightarrow> Inl e
           | Inr vs \<Rightarrow> Inr (v # vs)))"

section \<open>The engine, seen from the program\<close>

text \<open>
  LLDB is an external library. An \<^verbatim>\<open>SBDebugger\<close>, \<^verbatim>\<open>SBCommandInterpreter\<close> or \<^verbatim>\<open>SBTarget\<close>
  that the program holds is an identity; whether it is valid is asked of the engine each
  time, and the answer may change as operations are performed.
\<close>

datatype sb_object = SBObject (obj_id: nat)

record SBError =
  Success :: bool
  GetCString :: "string option"

record SBCommandReturnObject =
  GetOutput :: string
  Succeeded :: bool
  GetError :: string

text \<open>
  The process of the target as \<^verbatim>\<open>target.GetProcess()\<close> hands it out: whether it is valid,
  its state and id, and the bytes of standard output buffered at that moment, which
  \<^verbatim>\<open>GetSTDOUT(n)\<close> hands out destructively, at most \<open>n\<close> at a time.
\<close>

record SBProcess =
  proc_IsValid :: bool
  GetState :: int
  GetProcessID :: int
  stdout_buffer :: string

text \<open>
  The operations the program performs on the engine, recorded in the order they happen.
  Reading a property of an object (\<^verbatim>\<open>IsValid()\<close>, \<^verbatim>\<open>Success()\<close>, \<^verbatim>\<open>GetOutput()\<close> and the
  like) is not an operation.
\<close>

datatype api_call =
    SBDebugger_Create
  | SetAsync bool
  | GetCommandInterpreter
  | CreateTarget string string
  | SBDebugger_Terminate
  | HandleCommand string
  | GetProcess
  | GetSTDOUT nat

text \<open>
  The \<^verbatim>\<open>lldb\<close> module is a parameter of the model: what each operation answers and whether
  an object is valid, as functions of all operations performed so far, and the twelve
  state constants the program compares against.
\<close>

record lldb =
  on_Create :: "api_call list \<Rightarrow> sb_object"
  on_GetCommandInterpreter :: "api_call list \<Rightarrow> sb_object"
  on_CreateTarget :: "api_call list \<Rightarrow> string \<Rightarrow> string \<Rightarrow> sb_object \<times> SBError"
  on_HandleCommand :: "api_call list \<Rightarrow> string \<Rightarrow> SBCommandReturnObject"
  on_GetProcess :: "api_call list \<Rightarrow> SBProcess"
  on_IsValid :: "api_call list \<Rightarrow> sb_object \<Rightarrow> bool"
  eStateInvalid :: int
  eStateUnloaded :: int
  eStateConnected :: int
  eStateAttaching :: int
  eStateLaunching :: int
  eStateStopped :: int
  eStateRunning :: int
  eStateStepping :: int
  eStateCrashed :: int
  eStateDetached :: int
  eStateExited :: int
  eStateSuspended :: int

section \<open>The Python runtime and the console\<close>

text \<open>
  The decorator \<^verbatim>\<open>log_tool_call\<close> prints through a \<^verbatim>\<open>rich\<close> console, which reads
  square-bracket tags in the text as markup and raises an error for a text it cannot
  read, such as one with a closing tag that nothing opened. The console and the texts
  that Python gives the argument tuple, the keyword dictionary and a result dictionary
  are parameters of the model. What the console prints is not recorded; whether it
  raises is.
\<close>

record runtime =
  repr_args :: "string list \<Rightarrow> string"
  repr_kwargs :: "(string \<times> string) list \<Rightarrow> string"
  dict_to_str :: "py_dict \<Rightarrow> string"
  console_print :: "string \<Rightarrow> string option"

section \<open>Session state and the world\<close>

text \<open>The global dictionary \<^verbatim>\<open>debugger_state\<close>; every entry starts as \<^verbatim>\<open>None\<close>.\<close>

record session =
  debugger :: "sb_object option"
  interpreter :: "sb_object option"
  target :: "sb_object option"
  filename :: "string option"
  arch :: "string option"

definition initial_session :: session where
  "initial_session =
     \<lparr>debugger = None, interpreter = None, target = None, filename = None, arch = None\<rparr>"

text \<open>
  \<^verbatim>\<open>if debugger_state[k]\<close>: \<^verbatim>\<open>None\<close> is false, and an SB object is true when the engine
  says, at the moment of the test, that it is valid.
\<close>

definition truthy :: "lldb \<Rightarrow> api_call list \<Rightarrow> sb_object option \<Rightarrow> bool" where
  "truthy L tr h = (case h of None \<Rightarrow> False | Some obj \<Rightarrow> on_IsValid L tr obj)"

datatype entry = File string | Dir

text \<open>
  What the program can change or observe outside itself: the session dictionary, the
  operations performed on the engine, the filesystem (path to entry), the paths that
  \<^verbatim>\<open>open(path, "w")\<close> refuses with the text of the exception it raises, and the files
  currently open.
\<close>

record world =
  debugger_state :: session
  calls :: "api_call list"
  fs :: "string \<rightharpoonup> entry"
  unwritable :: "string \<rightharpoonup> string"
  open_files :: "string list"

definition add_call :: "api_call \<Rightarrow> world \<Rightarrow> world" where
  "add_call c w = w\<lparr>calls := calls w @ [c]\<rparr>"

definition os_path_exists :: "world \<Rightarrow> string \<Rightarrow> bool" where
  "os_path_exists w p = (case fs w p of None \<Rightarrow> False | Some e \<Rightarrow> True)"

text \<open>\<^verbatim>\<open>open(path, "w")\<close> raises, or creates the file empty (truncating it) and holds it open.\<close>

definition open_w :: "string \<Rightarrow> world \<Rightarrow> string + world" where
  "open_w p w =
     (case unwritable w p of
        Some msg \<Rightarrow> Inl msg
      | None \<Rightarrow> Inr (w\<lparr>fs := (fs w)(p \<mapsto> File []), open_files := p # open_files w\<rparr>))"

definition close_file :: "string \<Rightarrow> world \<Rightarrow> world" where
  "close_file p w = w\<lparr>open_files := remove1 p (open_files w)\<rparr>"

section \<open>The logging decorator\<close>

text \<open>
  \<^verbatim>\<open>log_tool_call(func)\<close> is the function \<^verbatim>\<open>wrapper(*args, **kwargs)\<close>: it prints the name and
  the arguments, calls \<^verbatim>\<open>func\<close>, prints the result cut to 200 characters, and returns the
  result. It catches nothing, so an exception of either print or of the call leaves the
  tool. Every tool of the module is decorated with it. The length of a text is counted
  in characters of the model, here and in the chunks of standard output.
\<close>

definition input_line :: "runtime \<Rightarrow> string \<Rightarrow> string list \<Rightarrow> (string \<times> string) list \<Rightarrow> string" where
  "input_line R func_name args kwargs =
     ''[bold blue]INPUT:[/bold blue] '' @ ''Tool '' @ apostrophe @ func_name @ apostrophe
       @ '' called with args='' @ repr_args R args @ '', kwargs='' @ repr_kwargs R kwargs"

definition output_line :: "string \<Rightarrow> string" where
  "output_line output_str =
     ''[bold green]OUTPUT:[/bold green] ''
       @ (if length output_str > 200 then take 197 output_str @ ''...'' else output_str)"

definition log_tool_call ::
  "runtime \<Rightarrow> string \<Rightarrow> ('r \<Rightarrow> string)
     \<Rightarrow> (string list \<Rightarrow> (string \<times> string) list \<Rightarrow> world \<Rightarrow> (py_error + 'r) \<times> world)
     \<Rightarrow> string list \<Rightarrow> (string \<times> string) list \<Rightarrow> world \<Rightarrow> (py_error + 'r) \<times> world" where
  "log_tool_call R func_name to_str func args kwargs w =
     (case console_print R (input_line R func_name args kwargs) of
        Some msg \<Rightarrow> (Inl (MarkupError msg), w)
      | None \<Rightarrow>
          (case func args kwargs w of
             (Inl e, w1) \<Rightarrow> (Inl e, w1)
           | (Inr result, w1) \<Rightarrow>
               (case console_print R (output_line (to_str result)) of
                  Some msg \<Rightarrow> (Inl (MarkupError msg), w1)
                | None \<Rightarrow> (Inr result, w1))))"

text \<open>
  A function without parameters and a function of two parameters, called with
  \<^verbatim>\<open>*args\<close> and \<^verbatim>\<open>**kwargs\<close>; \<open>returning\<close> is a body that raises nothing.
\<close>

definition returning :: "(world \<Rightarrow> 'r \<times> world) \<Rightarrow> world \<Rightarrow> (py_error + 'r) \<times> world" where
  "returning body w = (case body w of (r, w1) \<Rightarrow> (Inr r, w1))"

definition call_0 ::
  "(world \<Rightarrow> (py_error + 'r) \<times> world)
     \<Rightarrow> string list \<Rightarrow> (string \<times> string) list \<Rightarrow> world \<Rightarrow> (py_error + 'r) \<times> world" where
  "call_0 body args kwargs w =
     (case bind_params [] args kwargs of
        Inl e \<Rightarrow> (Inl e, w)
      | Inr vs \<Rightarrow> body w)"

definition call_2 ::
  "(string \<times> string option) list \<Rightarrow> (string \<Rightarrow> string \<Rightarrow> world \<Rightarrow> (py_error + 'r) \<times> world)
     \<Rightarrow> string list \<Rightarrow> (string \<times> string) list \<Rightarrow> world \<Rightarrow> (py_error + 'r) \<times> world" where
  "call_2 params body args kwargs w =
     (case bind_params params args kwargs of
        Inl e \<Rightarrow> (Inl e, w)
      | Inr vs \<Rightarrow>
          (case vs of
             [a, b] \<Rightarrow> body a b w
           | _ \<Rightarrow> (Inl TypeError, w)))"

text \<open>The text of a dictionary of strings is that of the same dictionary of values.\<close>

definition py_values :: "str_dict \<Rightarrow> py_dict" where
  "py_values d = map (\<lambda>(k, v). (k, PStr v)) d"

section \<open>The tools\<close>

text \<open>
  Each tool is its body, as written under \<^verbatim>\<open>def\<close>, called through the decorator. A body
  takes the world and returns its result with the world after the call.
\<close>

subsection \<open>initialize_debugger\<close>

definition initialize_debugger_body :: "lldb \<Rightarrow> string \<Rightarrow> string \<Rightarrow> world \<Rightarrow> string \<times> world" where
  "initialize_debugger_body L fname architecture w =
     (if \<not> os_path_exists w fname then
        (''Error: The file '' @ apostrophe @ fname @ apostrophe @ '' does not exist.'', w)
      else
        let dbg = on_Create L (calls w);
            w1 = add_call SBDebugger_Create w
        in if \<not> on_IsValid L (calls w1) dbg then
             (''Error: Failed to create SBDebugger instance.'', w1)
           else
             let w2 = add_call (SetAsync False) w1;
                 interp = on_GetCommandInterpreter L (calls w2);
                 w3 = add_call GetCommandInterpreter w2
             in if \<not> on_IsValid L (calls w3) interp then
                  (''Error: Failed to get command interpreter.'', add_call SBDebugger_Terminate w3)
                else
                  let (tgt, err) = on_CreateTarget L (calls w3) fname architecture;
                      w4 = add_call (CreateTarget fname architecture) w3
                  in if \<not> on_IsValid L (calls w4) tgt \<or> \<not> Success err then
                       (''Error: Failed to create target: '' @ fmt_opt (GetCString err),
                        add_call SBDebugger_Terminate w4)
                     else
                       (''Successfully initialized LLDB debugger for target: '' @ fname
                          @ '' (arch: '' @ architecture @ '')'',
                        w4\<lparr>debugger_state :=
                             \<lparr>debugger = Some dbg, interpreter = Some interp, target = Some tgt,
                              filename = Some fname, arch = Some architecture\<rparr>\<rparr>))"

definition initialize_debugger ::
  "runtime \<Rightarrow> lldb \<Rightarrow> string list \<Rightarrow> (string \<times> string) list \<Rightarrow> world
     \<Rightarrow> (py_error + string) \<times> world" where
  "initialize_debugger R L =
     log_tool_call R ''initialize_debugger'' (\<lambda>s. s)
       (call_2 [(''filename'', None), (''arch'', Some ''x86_64'')]
          (\<lambda>fname architecture. returning (initialize_debugger_body L fname architecture)))"

subsection \<open>run_lldb_command_func and run_lldb_command\<close>

text \<open>
  The loop that drains the standard output of the process, 1024 bytes at a time, until a
  chunk comes back empty. The buffer is what the process held when it was handed out.
\<close>

function drain_stdout :: "string \<Rightarrow> string \<Rightarrow> api_call list \<Rightarrow> string \<times> api_call list" where
  "drain_stdout buf output_read tr =
     (let stdout_chunk = take 1024 buf;
          tr' = tr @ [GetSTDOUT 1024]
      in if stdout_chunk = [] then (output_read, tr')
         else drain_stdout (drop 1024 buf) (output_read @ stdout_chunk) tr')"
  by pat_completeness auto
termination
  by (relation "measure (\<lambda>(buf, output_read, tr). length buf)") auto

definition not_initialized_message :: string where
  "not_initialized_message = ''LLDB not initialized. Call initialize_debugger() first.''"

definition run_lldb_command_func :: "lldb \<Rightarrow> string \<Rightarrow> world \<Rightarrow> str_dict \<times> world" where
  "run_lldb_command_func L command w =
     (if \<not> truthy L (calls w) (interpreter (debugger_state w))
         \<or> \<not> truthy L (calls w) (target (debugger_state w)) then
        ([(''error'', not_initialized_message),
          (''lldb_output'', []),
          (''program_stdout'', [])], w)
      else
        let result = on_HandleCommand L (calls w) command;
            w1 = add_call (HandleCommand command) w;
            lldb_output = GetOutput result @ (if \<not> Succeeded result then GetError result else []);
            process = on_GetProcess L (calls w1);
            w2 = add_call GetProcess w1;
            (program_stdout, tr) =
               (if proc_IsValid process then drain_stdout (stdout_buffer process) [] (calls w2)
                else ([], calls w2))
        in ([(''command'', command),
             (''lldb_output'', lldb_output),
             (''program_stdout'', program_stdout)], w2\<lparr>calls := tr\<rparr>))"

definition run_lldb_command_body :: "lldb \<Rightarrow> string \<Rightarrow> string \<Rightarrow> world \<Rightarrow> str_dict \<times> world" where
  "run_lldb_command_body L command output_filename w =
     (if output_filename = [] then run_lldb_command_func L command w
      else
        (case open_w output_filename w of
           Inl e \<Rightarrow> ([(''error'', e)], w)
         | Inr w1 \<Rightarrow>
             let (r, w2) = run_lldb_command_func L command w1
             in (r, close_file output_filename w2)))"

definition run_lldb_command ::
  "runtime \<Rightarrow> lldb \<Rightarrow> string list \<Rightarrow> (string \<times> string) list \<Rightarrow> world
     \<Rightarrow> (py_error + str_dict) \<times> world" where
  "run_lldb_command R L =
     log_tool_call R ''run_lldb_command'' (\<lambda>d. dict_to_str R (py_values d))
       (call_2 [(''command'', None), (''output_filename'', Some [])]
          (\<lambda>command output_filename.
             returning (run_lldb_command_body L command output_filename)))"

subsection \<open>get_debugger_status\<close>

text \<open>
  The dictionary literal \<^verbatim>\<open>state_names\<close>, in source order. Python keeps the last value of
  a key that a literal gives twice, so the lookup reads the list from its end.
\<close>

definition state_names :: "lldb \<Rightarrow> (int \<times> string) list" where
  "state_names L =
     [(eStateInvalid L, ''invalid''),
      (eStateUnloaded L, ''unloaded''),
      (eStateConnected L, ''connected''),
      (eStateAttaching L, ''attaching''),
      (eStateLaunching L, ''launching''),
      (eStateStopped L, ''stopped''),
      (eStateRunning L, ''running''),
      (eStateStepping L, ''stepping''),
      (eStateCrashed L, ''crashed''),
      (eStateDetached L, ''detached''),
      (eStateExited L, ''exited''),
      (eStateSuspended L, ''suspended'')]"

definition state_name :: "lldb \<Rightarrow> int \<Rightarrow> string" where
  "state_name L st =
     (case map_of (rev (state_names L)) st of None \<Rightarrow> ''unknown'' | Some n \<Rightarrow> n)"

definition get_debugger_status_body :: "lldb \<Rightarrow> world \<Rightarrow> py_dict \<times> world" where
  "get_debugger_status_body L w =
     (if \<not> truthy L (calls w) (debugger (debugger_state w)) then
        ([(''initialized'', PBool False),
          (''filename'', PNone),
          (''arch'', PNone),
          (''process_state'', PStr ''No debugger initialized'')], w)
      else
        let status = [(''initialized'', PBool True),
                      (''filename'', opt_str (filename (debugger_state w))),
                      (''arch'', opt_str (arch (debugger_state w))),
                      (''process_state'', PStr ''No process''),
                      (''process_id'', PNone)]
        in if truthy L (calls w) (target (debugger_state w)) then
             let process = on_GetProcess L (calls w);
                 w1 = add_call GetProcess w
             in if proc_IsValid process then
                  (AList.update ''process_id'' (PInt (GetProcessID process))
                     (AList.update ''process_state'' (PStr (state_name L (GetState process)))
                        status), w1)
                else (status, w1)
           else (status, w))"

definition get_debugger_status ::
  "runtime \<Rightarrow> lldb \<Rightarrow> string list \<Rightarrow> (string \<times> string) list \<Rightarrow> world
     \<Rightarrow> (py_error + py_dict) \<times> world" where
  "get_debugger_status R L =
     log_tool_call R ''get_debugger_status'' (dict_to_str R)
       (call_0 (returning (get_debugger_status_body L)))"

subsection \<open>terminate_debugger\<close>

definition terminate_debugger_body :: "lldb \<Rightarrow> world \<Rightarrow> string \<times> world" where
  "terminate_debugger_body L w =
     (if truthy L (calls w) (debugger (debugger_state w)) then
        (''LLDB debugger session terminated successfully.'',
         (add_call SBDebugger_Terminate w)\<lparr>debugger_state := initial_session\<rparr>)
      else (''No active debugger session to terminate.'', w))"

definition terminate_debugger ::
  "runtime \<Rightarrow> lldb \<Rightarrow> string list \<Rightarrow> (string \<times> string) list \<Rightarrow> world
     \<Rightarrow> (py_error + string) \<times> world" where
  "terminate_debugger R L =
     log_tool_call R ''terminate_debugger'' (\<lambda>s. s)
       (call_0 (returning (terminate_debugger_body L)))"

subsection \<open>set_breakpoint and list_breakpoints\<close>

text \<open>The command that \<^verbatim>\<open>set_breakpoint\<close> builds from the location and the condition.\<close>

definition breakpoint_cmd :: "string \<Rightarrow> string \<Rightarrow> py_error + string" where
  "breakpoint_cmd location condition =
     (case (if CHR '':'' \<in> set location then
              (case getitem (split_str CHR '':'' location) 0 of
                 Inl e \<Rightarrow> Inl e
               | Inr file_part \<Rightarrow>
                   (case getitem (split_str CHR '':'' location) 1 of
                      Inl e \<Rightarrow> Inl e
                    | Inr line_part \<Rightarrow>
                        Inr (''breakpoint set --file '' @ file_part @ '' --line '' @ line_part)))
            else if startswith ''0x'' location then
              Inr (''breakpoint set --address '' @ location)
            else
              Inr (''breakpoint set --name '' @ location)) of
        Inl e \<Rightarrow> Inl e
      | Inr cmd \<Rightarrow>
          Inr (if condition \<noteq> [] then
                 cmd @ '' --condition '' @ apostrophe @ condition @ apostrophe
               else cmd))"

definition set_breakpoint_body ::
  "lldb \<Rightarrow> string \<Rightarrow> string \<Rightarrow> world \<Rightarrow> (py_error + py_dict) \<times> world" where
  "set_breakpoint_body L location condition w =
     (if \<not> truthy L (calls w) (interpreter (debugger_state w)) then
        (Inr [(''success'', PBool False),
              (''message'', PStr not_initialized_message),
              (''lldb_output'', PStr [])], w)
      else
        (case breakpoint_cmd location condition of
           Inl e \<Rightarrow> (Inl e, w)
         | Inr cmd \<Rightarrow>
             let (result, w1) = run_lldb_command_func L cmd w;
                 success = (str_contains ''Breakpoint'' (dict_get result ''lldb_output'' [])
                            \<and> \<not> has_key result ''error'')
             in (Inr [(''success'', PBool success),
                      (''message'', PStr (if success then ''Breakpoint set at '' @ location
                                          else ''Failed to set breakpoint'')),
                      (''lldb_output'', PStr (dict_get result ''lldb_output'' [])),
                      (''condition'', PStr (if condition \<noteq> [] then condition else ''None''))],
                 w1)))"

definition set_breakpoint ::
  "runtime \<Rightarrow> lldb \<Rightarrow> string list \<Rightarrow> (string \<times> string) list \<Rightarrow> world
     \<Rightarrow> (py_error + py_dict) \<times> world" where
  "set_breakpoint R L =
     log_tool_call R ''set_breakpoint'' (dict_to_str R)
       (call_2 [(''location'', None), (''condition'', Some [])] (set_breakpoint_body L))"

definition list_breakpoints_body :: "lldb \<Rightarrow> world \<Rightarrow> str_dict \<times> world" where
  "list_breakpoints_body L w =
     (let (result, w1) = run_lldb_command_func L ''breakpoint list'' w
      in ([(''lldb_output'', dict_get result ''lldb_output'' []),
           (''program_stdout'', dict_get result ''program_stdout'' [])], w1))"

definition list_breakpoints ::
  "runtime \<Rightarrow> lldb \<Rightarrow> string list \<Rightarrow> (string \<times> string) list \<Rightarrow> world
     \<Rightarrow> (py_error + str_dict) \<times> world" where
  "list_breakpoints R L =
     log_tool_call R ''list_breakpoints'' (\<lambda>d. dict_to_str R (py_values d))
       (call_0 (returning (list_breakpoints_body L)))"

section \<open>Notions of the specification\<close>

text \<open>
  The specification speaks of a session that is Initialized or Uninitialized. The program
  has no such field. \<^verbatim>\<open>get_debugger_status\<close> and \<^verbatim>\<open>terminate_debugger\<close> take the session for
  initialized when the \<^verbatim>\<open>debugger\<close> entry is true; a session is Uninitialized when the
  dictionary is as the module creates it.
\<close>

definition initialized :: "lldb \<Rightarrow> world \<Rightarrow> bool" where
  "initialized L w = truthy L (calls w) (debugger (debugger_state w))"

definition uninitialized :: "session \<Rightarrow> bool" where
  "uninitialized s = (s = initial_session)"

text \<open>
  The invariant of the session: the interpreter handle is set exactly when the debugger
  handle is, and so is the target handle. No session with only some of its handles.
\<close>

definition session_invariant :: "session \<Rightarrow> bool" where
  "session_invariant s =
     ((interpreter s \<noteq> None) = (debugger s \<noteq> None)
      \<and> (target s \<noteq> None) = (debugger s \<noteq> None))"

text \<open>
  The outcome of a decorated call whose function, run in \<open>w\<close>, returns \<open>result\<close> and the
  world \<open>w1\<close>: the error of the first of the two prints that the console refuses (the
  function does not run when it is the first), and the result when both print.
\<close>

definition logged ::
  "runtime \<Rightarrow> string \<Rightarrow> string list \<Rightarrow> (string \<times> string) list \<Rightarrow> world
     \<Rightarrow> string \<Rightarrow> 'r \<Rightarrow> world \<Rightarrow> (py_error + 'r) \<times> world" where
  "logged R func_name args kwargs w output_str result w1 =
     (case console_print R (input_line R func_name args kwargs) of
        Some msg \<Rightarrow> (Inl (MarkupError msg), w)
      | None \<Rightarrow>
          (case console_print R (output_line output_str) of
             Some msg \<Rightarrow> (Inl (MarkupError msg), w1)
           | None \<Rightarrow> (Inr result, w1)))"

definition raises_MarkupError :: "py_error + 'r \<Rightarrow> bool" where
  "raises_MarkupError outcome =
     (case outcome of
        Inl e \<Rightarrow> (case e of MarkupError msg \<Rightarrow> True | _ \<Rightarrow> False)
      | Inr r \<Rightarrow> False)"

text \<open>The closed vocabulary of process states, and the word for anything else.\<close>

definition vocabulary :: "string list" where
  "vocabulary =
     [''invalid'', ''unloaded'', ''connected'', ''attaching'', ''launching'', ''stopped'',
      ''running'', ''stepping'', ''crashed'', ''detached'', ''exited'', ''suspended'']"

text \<open>
  What a tool hands back: a message or a record. A result is of the NotInitialized class,
  read as widely as the words allow, when it is a record that carries an \<^verbatim>\<open>error\<close> key or
  has \<^verbatim>\<open>success\<close> false.
\<close>

datatype tool_result = Message string | Record py_dict

definition NotInitialized_class :: "tool_result \<Rightarrow> bool" where
  "NotInitialized_class r =
     (case r of
        Message m \<Rightarrow> False
      | Record d \<Rightarrow> has_key d ''error'' \<or> map_of d ''success'' = Some (PBool False))"

text \<open>
  The location parts in the words of the specification: the text before the first colon,
  and the text after the first colon.
\<close>

definition before_first_colon :: "string \<Rightarrow> string" where
  "before_first_colon s = takeWhile (\<lambda>c. c \<noteq> CHR '':'') s"

definition after_first_colon :: "string \<Rightarrow> string" where
  "after_first_colon s = tl (dropWhile (\<lambda>c. c \<noteq> CHR '':'') s)"

definition condition_clause :: "string \<Rightarrow> string" where
  "condition_clause condition =
     (if condition \<noteq> [] then '' --condition '' @ apostrophe @ condition @ apostrophe else [])"

section \<open>A concrete runtime, concrete engines and concrete worlds\<close>

text \<open>
  A runtime for the examples. Its texts are those of Python for strings without
  backslashes and control characters that do not hold both kinds of quote: a string in
  single quotes, or in double quotes when it holds a single one. Its console refuses
  exactly the texts with the closing tag \<^verbatim>\<open>[/a]\<close>, which none of the texts printed here
  opens, with the message of \<^verbatim>\<open>rich\<close>.
\<close>

definition py_quote :: "string \<Rightarrow> string" where
  "py_quote s =
     (if CHR 0x27 \<in> set s \<and> CHR 0x22 \<notin> set s then [CHR 0x22] @ s @ [CHR 0x22]
      else apostrophe @ s @ apostrophe)"

fun join :: "string \<Rightarrow> string list \<Rightarrow> string" where
  "join sep [] = []"
| "join sep [x] = x"
| "join sep (x # y # ys) = x @ sep @ join sep (y # ys)"

fun show_nat :: "nat \<Rightarrow> string" where
  "show_nat n =
     (if n < 10 then [''0123456789'' ! n]
      else show_nat (n div 10) @ [''0123456789'' ! (n mod 10)])"

definition show_pyval :: "pyval \<Rightarrow> string" where
  "show_pyval v =
     (case v of
        PNone \<Rightarrow> ''None''
      | PBool b \<Rightarrow> (if b then ''True'' else ''False'')
      | PInt i \<Rightarrow> (if i < 0 then ''-'' @ show_nat (nat (- i)) else show_nat (nat i))
      | PStr s \<Rightarrow> py_quote s)"

fun find_str :: "string \<Rightarrow> string \<Rightarrow> nat \<Rightarrow> nat option" where
  "find_str needle [] i = (if needle = [] then Some i else None)"
| "find_str needle (c # cs) i =
     (if startswith needle (c # cs) then Some i else find_str needle cs (i + 1))"

definition demo_runtime :: runtime where
  "demo_runtime =
     \<lparr>repr_args = (\<lambda>args.
         case args of
           [a] \<Rightarrow> ''('' @ py_quote a @ '',)''
         | _ \<Rightarrow> ''('' @ join '', '' (map py_quote args) @ '')''),
      repr_kwargs = (\<lambda>kwargs.
         ''{'' @ join '', '' (map (\<lambda>(k, v). py_quote k @ '': '' @ py_quote v) kwargs) @ ''}''),
      dict_to_str = (\<lambda>d.
         ''{'' @ join '', '' (map (\<lambda>(k, v). py_quote k @ '': '' @ show_pyval v) d) @ ''}''),
      console_print = (\<lambda>line.
         case find_str ''[/a]'' line 0 of
           None \<Rightarrow> None
         | Some i \<Rightarrow>
             Some (''closing tag '' @ apostrophe @ ''[/a]'' @ apostrophe @ '' at position ''
                   @ show_nat i @ '' doesn'' @ apostrophe @ ''t match any open tag''))\<rparr>"

text \<open>
  An engine on which everything succeeds and every object stays valid: every command
  prints the line of a breakpoint that was set, and the process is stopped with five bytes
  of output pending. The state constants have the values of LLDB's public enumeration.
\<close>

definition demo_lldb :: lldb where
  "demo_lldb =
     \<lparr>on_Create = (\<lambda>tr. SBObject 1),
      on_GetCommandInterpreter = (\<lambda>tr. SBObject 2),
      on_CreateTarget = (\<lambda>tr f a. (SBObject 3, \<lparr>Success = True, GetCString = None\<rparr>)),
      on_HandleCommand = (\<lambda>tr c.
         \<lparr>GetOutput = ''Breakpoint 1: where = ls`main, address = 0x1000'',
          Succeeded = True, GetError = []\<rparr>),
      on_GetProcess = (\<lambda>tr.
         \<lparr>proc_IsValid = True, GetState = 5, GetProcessID = 4242, stdout_buffer = ''hello''\<rparr>),
      on_IsValid = (\<lambda>tr obj. True),
      eStateInvalid = 0, eStateUnloaded = 1, eStateConnected = 2, eStateAttaching = 3,
      eStateLaunching = 4, eStateStopped = 5, eStateRunning = 6, eStateStepping = 7,
      eStateCrashed = 8, eStateDetached = 9, eStateExited = 10, eStateSuspended = 11\<rparr>"

text \<open>
  The same engine, except that it refuses to create another target: the object it hands
  out (number 4) is invalid and comes with an error. As in LLDB,
  \<^verbatim>\<open>SBDebugger.Terminate()\<close> destroys the targets: the target created earlier (number 3) is
  invalid once that operation has been performed, while the debugger and interpreter
  objects still answer that they are valid.
\<close>

definition no_target_lldb :: lldb where
  "no_target_lldb =
     demo_lldb
       \<lparr>on_CreateTarget := (\<lambda>tr f a.
          (SBObject 4, \<lparr>Success = False, GetCString = Some ''unsupported architecture''\<rparr>)),
        on_IsValid := (\<lambda>tr obj.
          if obj_id obj = 4 then False
          else if obj_id obj = 3 then SBDebugger_Terminate \<notin> set tr
          else True)\<rparr>"

text \<open>The same engine, except that no process has been launched.\<close>

definition no_process_lldb :: lldb where
  "no_process_lldb =
     demo_lldb\<lparr>on_GetProcess := (\<lambda>tr.
        \<lparr>proc_IsValid = False, GetState = 0, GetProcessID = 0, stdout_buffer = []\<rparr>)\<rparr>"

text \<open>The same engine, except that every command fails with an error text.\<close>

definition failing_lldb :: lldb where
  "failing_lldb =
     demo_lldb\<lparr>on_HandleCommand := (\<lambda>tr c.
        \<lparr>GetOutput = [], Succeeded = False, GetError = ''error: no such function''\<rparr>)\<rparr>"

text \<open>
  A fresh world with one executable and one path that cannot be opened for writing, and
  the world after \<^verbatim>\<open>initialize_debugger("/bin/ls", "x86_64")\<close> succeeded in it.
\<close>

definition missing_dir_message :: string where
  "missing_dir_message =
     ''[Errno 2] No such file or directory: '' @ apostrophe @ ''/missing/out.txt'' @ apostrophe"

definition fresh_world :: world where
  "fresh_world =
     \<lparr>debugger_state = initial_session,
      calls = [],
      fs = [''/bin/ls'' \<mapsto> File ''ELF''],
      unwritable = [''/missing/out.txt'' \<mapsto> missing_dir_message],
      open_files = []\<rparr>"

definition debugging_world :: world where
  "debugging_world =
     \<lparr>debugger_state =
        \<lparr>debugger = Some (SBObject 1), interpreter = Some (SBObject 2),
         target = Some (SBObject 3), filename = Some ''/bin/ls'',
         arch = Some ''x86_64''\<rparr>,
      calls = [SBDebugger_Create, SetAsync False, GetCommandInterpreter,
               CreateTarget ''/bin/ls'' ''x86_64''],
      fs = [''/bin/ls'' \<mapsto> File ''ELF''],
      unwritable = [''/missing/out.txt'' \<mapsto> missing_dir_message],
      open_files = []\<rparr>"

section \<open>Facts about the helpers\<close>

declare drain_stdout.simps [simp del]

declare show_nat.simps [simp del]

lemma drain_stdout_output: "fst (drain_stdout buf output_read tr) = output_read @ buf"
proof (induction buf output_read tr rule: drain_stdout.induct)
  case (1 buf output_read tr)
  show ?case
  proof (cases "take 1024 buf = []")
    case True
    then show ?thesis
      by (subst drain_stdout.simps) simp
  next
    case False
    with "1" show ?thesis
      by (subst drain_stdout.simps) (simp add: Let_def)
  qed
qed

lemma run_lldb_command_func_session:
  "debugger_state (snd (run_lldb_command_func L command w)) = debugger_state w"
  by (simp add: run_lldb_command_func_def add_call_def Let_def split: prod.splits)

lemma run_lldb_command_func_outside:
  "run_lldb_command_func L command (w\<lparr>fs := f, open_files := ofs\<rparr>)
     = (fst (run_lldb_command_func L command w),
        (snd (run_lldb_command_func L command w))\<lparr>fs := f, open_files := ofs\<rparr>)"
  by (simp add: run_lldb_command_func_def add_call_def Let_def split: prod.splits)

section \<open>Facts about the decorator\<close>

text \<open>A decorated call whose function returns has the outcome that \<open>logged\<close> describes.\<close>

lemma log_tool_call_logged:
  assumes "func args kwargs w = (Inr result, w1)"
  shows "log_tool_call R func_name to_str func args kwargs w
           = logged R func_name args kwargs w (to_str result) result w1"
  using assms by (simp add: log_tool_call_def logged_def split: option.splits)

lemma logged_prints:
  assumes "console_print R (input_line R func_name args kwargs) = None"
    and "console_print R (output_line output_str) = None"
  shows "logged R func_name args kwargs w output_str result w1 = (Inr result, w1)"
  using assms by (simp add: logged_def)

lemma logged_returns:
  assumes "logged R func_name args kwargs w output_str result w1 = (Inr r, w')"
  shows "r = result \<and> w' = w1
         \<and> console_print R (input_line R func_name args kwargs) = None
         \<and> console_print R (output_line output_str) = None"
  using assms by (auto simp add: logged_def split: option.splits)

lemma logged_refused:
  assumes "console_print R (input_line R func_name args kwargs) = Some msg"
  shows "logged R func_name args kwargs w output_str result w1 = (Inl (MarkupError msg), w)"
  using assms by (simp add: logged_def)

lemma logged_world:
  "snd (logged R func_name args kwargs w output_str result w1) = w
   \<or> snd (logged R func_name args kwargs w output_str result w1) = w1"
  by (simp add: logged_def split: option.splits)

text \<open>Arguments that fit give every parameter one value.\<close>

lemma bind_params_length:
  "bind_params params args kwargs = Inr vs \<Longrightarrow> length vs = length params"
  by (induction params args kwargs arbitrary: vs rule: bind_params.induct)
     (auto split: if_splits sum.splits option.splits)

text \<open>Each tool, called with arguments that fit its parameters, is its body, logged.\<close>

lemma initialize_debugger_logged:
  assumes "bind_params [(''filename'', None), (''arch'', Some ''x86_64'')] args kwargs
             = Inr [fname, architecture]"
  shows "initialize_debugger R L args kwargs w
           = logged R ''initialize_debugger'' args kwargs w
               (fst (initialize_debugger_body L fname architecture w))
               (fst (initialize_debugger_body L fname architecture w))
               (snd (initialize_debugger_body L fname architecture w))"
  unfolding initialize_debugger_def
  by (rule log_tool_call_logged) (simp add: call_2_def returning_def assms split: prod.splits)

lemma run_lldb_command_logged:
  assumes "bind_params [(''command'', None), (''output_filename'', Some [])] args kwargs
             = Inr [command, output_filename]"
  shows "run_lldb_command R L args kwargs w
           = logged R ''run_lldb_command'' args kwargs w
               (dict_to_str R (py_values (fst (run_lldb_command_body L command output_filename w))))
               (fst (run_lldb_command_body L command output_filename w))
               (snd (run_lldb_command_body L command output_filename w))"
  unfolding run_lldb_command_def
  by (rule log_tool_call_logged) (simp add: call_2_def returning_def assms split: prod.splits)

lemma get_debugger_status_logged:
  "get_debugger_status R L [] [] w
     = logged R ''get_debugger_status'' [] [] w
         (dict_to_str R (fst (get_debugger_status_body L w)))
         (fst (get_debugger_status_body L w))
         (snd (get_debugger_status_body L w))"
  unfolding get_debugger_status_def
  by (rule log_tool_call_logged) (simp add: call_0_def returning_def split: prod.splits)

lemma terminate_debugger_logged:
  "terminate_debugger R L [] [] w
     = logged R ''terminate_debugger'' [] [] w
         (fst (terminate_debugger_body L w))
         (fst (terminate_debugger_body L w))
         (snd (terminate_debugger_body L w))"
  unfolding terminate_debugger_def
  by (rule log_tool_call_logged) (simp add: call_0_def returning_def split: prod.splits)

lemma list_breakpoints_logged:
  "list_breakpoints R L [] [] w
     = logged R ''list_breakpoints'' [] [] w
         (dict_to_str R (py_values (fst (list_breakpoints_body L w))))
         (fst (list_breakpoints_body L w))
         (snd (list_breakpoints_body L w))"
  unfolding list_breakpoints_def
  by (rule log_tool_call_logged) (simp add: call_0_def returning_def split: prod.splits)

lemma set_breakpoint_logged:
  assumes "bind_params [(''location'', None), (''condition'', Some [])] args kwargs
             = Inr [location, condition]"
    and "set_breakpoint_body L location condition w = (Inr d, w1)"
  shows "set_breakpoint R L args kwargs w
           = logged R ''set_breakpoint'' args kwargs w (dict_to_str R d) d w1"
  unfolding set_breakpoint_def
  by (rule log_tool_call_logged) (simp add: call_2_def assms)

text \<open>The console of the examples prints every text without the tag it refuses.\<close>

lemma find_str_None: "(find_str needle hay i = None) = (\<not> str_contains needle hay)"
  by (induction hay arbitrary: i) auto

lemma demo_runtime_prints:
  assumes "\<not> str_contains ''[/a]'' line"
  shows "console_print demo_runtime line = None"
proof -
  from assms have "find_str ''[/a]'' line 0 = None"
    by (simp add: find_str_None)
  then show ?thesis
    by (simp add: demo_runtime_def)
qed

lemma demo_runtime_refuses:
  "str_contains ''[/a]'' line \<Longrightarrow> \<exists>msg. console_print demo_runtime line = Some msg"
proof -
  assume "str_contains ''[/a]'' line"
  then have "find_str ''[/a]'' line 0 \<noteq> None"
    by (simp add: find_str_None)
  then show ?thesis
    by (auto simp add: demo_runtime_def)
qed

section \<open>The lifecycle of the session\<close>

text \<open>
  A call of the body that passes every check stores the three handles it obtained, all of
  them valid at that moment, with the file name and the architecture.
\<close>

lemma initialize_debugger_stores_handles:
  assumes "os_path_exists w fname"
    and "on_IsValid L (calls w @ [SBDebugger_Create]) (on_Create L (calls w))"
    and "on_IsValid L (calls w @ [SBDebugger_Create, SetAsync False, GetCommandInterpreter])
           (on_GetCommandInterpreter L (calls w @ [SBDebugger_Create, SetAsync False]))"
    and "on_IsValid L
           (calls w @ [SBDebugger_Create, SetAsync False, GetCommandInterpreter,
                       CreateTarget fname architecture])
           (fst (on_CreateTarget L
                   (calls w @ [SBDebugger_Create, SetAsync False, GetCommandInterpreter])
                   fname architecture))"
    and "Success (snd (on_CreateTarget L
            (calls w @ [SBDebugger_Create, SetAsync False, GetCommandInterpreter])
            fname architecture))"
  shows "fst (initialize_debugger_body L fname architecture w)
           = ''Successfully initialized LLDB debugger for target: '' @ fname
               @ '' (arch: '' @ architecture @ '')''
         \<and> debugger_state (snd (initialize_debugger_body L fname architecture w))
             = \<lparr>debugger = Some (on_Create L (calls w)),
                interpreter = Some (on_GetCommandInterpreter L
                                     (calls w @ [SBDebugger_Create, SetAsync False])),
                target = Some (fst (on_CreateTarget L
                                 (calls w @ [SBDebugger_Create, SetAsync False,
                                             GetCommandInterpreter])
                                 fname architecture)),
                filename = Some fname, arch = Some architecture\<rparr>
         \<and> calls (snd (initialize_debugger_body L fname architecture w))
             = calls w @ [SBDebugger_Create, SetAsync False, GetCommandInterpreter,
                          CreateTarget fname architecture]"
  using assms
  by (auto simp add: initialize_debugger_body_def add_call_def Let_def split: prod.splits)

text \<open>The concrete debugging world is the fresh one after a successful call.\<close>

lemma debugging_world_reached:
  "initialize_debugger_body demo_lldb ''/bin/ls'' ''x86_64'' fresh_world
     = (''Successfully initialized LLDB debugger for target: /bin/ls (arch: x86_64)'',
        debugging_world)"
  by (simp add: initialize_debugger_body_def demo_lldb_def fresh_world_def debugging_world_def
      os_path_exists_def add_call_def Let_def)

text \<open>
  The body, given a file name that is no entry of the filesystem, returns the message
  that the file does not exist and leaves the world as it was: no operation on the engine
  is performed. So does the tool, when the console prints both lines of the log.
\<close>

lemma initialize_debugger_body_missing_file:
  assumes "\<not> os_path_exists w fname"
  shows "initialize_debugger_body L fname architecture w
           = (''Error: The file '' @ apostrophe @ fname @ apostrophe @ '' does not exist.'', w)"
  using assms by (simp add: initialize_debugger_body_def)

lemma initialize_debugger_missing_file_logged:
  assumes "bind_params [(''filename'', None), (''arch'', Some ''x86_64'')] args kwargs
             = Inr [fname, architecture]"
    and "\<not> os_path_exists w fname"
  shows "initialize_debugger R L args kwargs w
           = logged R ''initialize_debugger'' args kwargs w
               (''Error: The file '' @ apostrophe @ fname @ apostrophe @ '' does not exist.'')
               (''Error: The file '' @ apostrophe @ fname @ apostrophe @ '' does not exist.'')
               w"
  using assms
  by (simp add: initialize_debugger_logged initialize_debugger_body_missing_file)

text \<open>
  Claim C4. The body returns the message for every missing file, but the tool is the body
  behind the logging decorator, and the decorator prints the arguments as console markup
  before the body runs. For the missing file \<^verbatim>\<open>/nope[/a]\<close> the console refuses the line, the
  error leaves the tool, and no message is returned. (The world is left as it was, and
  the engine is not touched.)
\<close>

theorem initialize_debugger_markup_filename:
  "\<not> os_path_exists fresh_world ''/nope[/a]''
   \<and> uninitialized (debugger_state fresh_world)
   \<and> raises_MarkupError
        (fst (initialize_debugger demo_runtime demo_lldb [''/nope[/a]''] [] fresh_world))
   \<and> fst (initialize_debugger demo_runtime demo_lldb [''/nope[/a]''] [] fresh_world)
       \<noteq> Inr (''Error: The file '' @ apostrophe @ ''/nope[/a]'' @ apostrophe
                @ '' does not exist.'')
   \<and> snd (initialize_debugger demo_runtime demo_lldb [''/nope[/a]''] [] fresh_world)
       = fresh_world"
proof -
  have missing: "\<not> os_path_exists fresh_world ''/nope[/a]''"
    by (simp add: os_path_exists_def fresh_world_def)
  have fresh: "uninitialized (debugger_state fresh_world)"
    by (simp add: uninitialized_def fresh_world_def)
  have fits: "bind_params [(''filename'', None), (''arch'', Some ''x86_64'')] [''/nope[/a]''] []
                = Inr [''/nope[/a]'', ''x86_64'']"
    by (simp add: has_key_def)
  have "str_contains ''[/a]'' (input_line demo_runtime ''initialize_debugger'' [''/nope[/a]''] [])"
    by (simp add: input_line_def demo_runtime_def py_quote_def apostrophe_def)
  then obtain msg where
    "console_print demo_runtime
       (input_line demo_runtime ''initialize_debugger'' [''/nope[/a]''] []) = Some msg"
    using demo_runtime_refuses by blast
  then have "initialize_debugger demo_runtime demo_lldb [''/nope[/a]''] [] fresh_world
               = (Inl (MarkupError msg), fresh_world)"
    by (simp add: initialize_debugger_missing_file_logged [OF fits missing] logged_refused)
  with missing fresh show ?thesis
    by (simp add: raises_MarkupError_def)
qed

text \<open>
  Claim C6. \<^verbatim>\<open>terminate_debugger\<close> is idempotent. On an Initialized session its body sets
  every entry of the session back to \<^verbatim>\<open>None\<close> and returns the confirmation; on a session
  that is not Initialized it changes nothing and returns the no-op message. Whatever the
  session was, a second run of the body returns the no-op message and changes nothing.
  The tool is that body, logged; of two calls in a row that both return, the second
  returns the no-op message and changes nothing.
\<close>

theorem terminate_debugger_idempotent:
  "(initialized L w \<longrightarrow>
      fst (terminate_debugger_body L w) = ''LLDB debugger session terminated successfully.''
      \<and> debugger_state (snd (terminate_debugger_body L w)) = initial_session)
   \<and> (\<not> initialized L w \<longrightarrow>
      terminate_debugger_body L w = (''No active debugger session to terminate.'', w))
   \<and> fst (terminate_debugger_body L (snd (terminate_debugger_body L w)))
       = ''No active debugger session to terminate.''
   \<and> snd (terminate_debugger_body L (snd (terminate_debugger_body L w)))
       = snd (terminate_debugger_body L w)
   \<and> terminate_debugger R L [] [] w
       = logged R ''terminate_debugger'' [] [] w
           (fst (terminate_debugger_body L w))
           (fst (terminate_debugger_body L w))
           (snd (terminate_debugger_body L w))
   \<and> (\<forall>m1 w1 m2 w2.
         terminate_debugger R L [] [] w = (Inr m1, w1)
         \<and> terminate_debugger R L [] [] w1 = (Inr m2, w2)
         \<longrightarrow> m2 = ''No active debugger session to terminate.'' \<and> w2 = w1)"
proof -
  have body: "(initialized L w \<longrightarrow>
      fst (terminate_debugger_body L w) = ''LLDB debugger session terminated successfully.''
      \<and> debugger_state (snd (terminate_debugger_body L w)) = initial_session)
   \<and> (\<not> initialized L w \<longrightarrow>
      terminate_debugger_body L w = (''No active debugger session to terminate.'', w))"
    by (simp add: terminate_debugger_body_def initialized_def)
  have again: "terminate_debugger_body L (snd (terminate_debugger_body L w))
                 = (''No active debugger session to terminate.'',
                    snd (terminate_debugger_body L w))"
  proof (cases "truthy L (calls w) (debugger (debugger_state w))")
    case True
    then show ?thesis
      by (simp add: terminate_debugger_body_def initial_session_def truthy_def add_call_def)
  next
    case False
    then show ?thesis
      by (simp add: terminate_debugger_body_def)
  qed
  have two: "m2 = ''No active debugger session to terminate.'' \<and> w2 = w1"
    if first: "terminate_debugger R L [] [] w = (Inr m1, w1)"
      and second: "terminate_debugger R L [] [] w1 = (Inr m2, w2)"
    for m1 w1 m2 w2
  proof -
    from first have "logged R ''terminate_debugger'' [] [] w
                       (fst (terminate_debugger_body L w))
                       (fst (terminate_debugger_body L w))
                       (snd (terminate_debugger_body L w)) = (Inr m1, w1)"
      by (simp add: terminate_debugger_logged)
    then have w1: "w1 = snd (terminate_debugger_body L w)"
      by (blast dest: logged_returns)
    from second have "logged R ''terminate_debugger'' [] [] w1
                       (fst (terminate_debugger_body L w1))
                       (fst (terminate_debugger_body L w1))
                       (snd (terminate_debugger_body L w1)) = (Inr m2, w2)"
      by (simp add: terminate_debugger_logged)
    then have "m2 = fst (terminate_debugger_body L w1) \<and> w2 = snd (terminate_debugger_body L w1)"
      by (blast dest: logged_returns)
    with w1 again show ?thesis
      by simp
  qed
  have tool: "terminate_debugger R L [] [] w
       = logged R ''terminate_debugger'' [] [] w
           (fst (terminate_debugger_body L w))
           (fst (terminate_debugger_body L w))
           (snd (terminate_debugger_body L w))"
    by (rule terminate_debugger_logged)
  have two_calls: "\<forall>m1 w1 m2 w2.
         terminate_debugger R L [] [] w = (Inr m1, w1)
         \<and> terminate_debugger R L [] [] w1 = (Inr m2, w2)
         \<longrightarrow> m2 = ''No active debugger session to terminate.'' \<and> w2 = w1"
    using two by blast
  have second: "fst (terminate_debugger_body L (snd (terminate_debugger_body L w)))
       = ''No active debugger session to terminate.''
   \<and> snd (terminate_debugger_body L (snd (terminate_debugger_body L w)))
       = snd (terminate_debugger_body L w)"
    by (simp add: again)
  from body second tool two_calls show ?thesis
    by blast
qed

theorem terminate_debugger_idempotent_witness:
  "initialized demo_lldb debugging_world
   \<and> fst (terminate_debugger demo_runtime demo_lldb [] [] debugging_world)
       = Inr ''LLDB debugger session terminated successfully.''
   \<and> debugger_state (snd (terminate_debugger demo_runtime demo_lldb [] [] debugging_world))
       = initial_session
   \<and> \<not> initialized demo_lldb fresh_world
   \<and> terminate_debugger demo_runtime demo_lldb [] [] fresh_world
       = (Inr ''No active debugger session to terminate.'', fresh_world)
   \<and> fst (terminate_debugger demo_runtime demo_lldb [] []
             (snd (terminate_debugger demo_runtime demo_lldb [] [] debugging_world)))
       = Inr ''No active debugger session to terminate.''"
proof -
  let ?after = "snd (terminate_debugger_body demo_lldb debugging_world)"
  have a: "initialized demo_lldb debugging_world"
    by (simp add: initialized_def debugging_world_def truthy_def demo_lldb_def)
  have b: "\<not> initialized demo_lldb fresh_world"
    by (simp add: initialized_def fresh_world_def truthy_def initial_session_def)
  have p: "console_print demo_runtime (input_line demo_runtime ''terminate_debugger'' [] [])
             = None"
    "console_print demo_runtime
       (output_line ''LLDB debugger session terminated successfully.'') = None"
    "console_print demo_runtime
       (output_line ''No active debugger session to terminate.'') = None"
    by (rule demo_runtime_prints,
        simp add: input_line_def output_line_def demo_runtime_def apostrophe_def)+
  from a terminate_debugger_idempotent [of demo_lldb debugging_world demo_runtime]
  have first: "fst (terminate_debugger_body demo_lldb debugging_world)
                 = ''LLDB debugger session terminated successfully.''"
    "debugger_state ?after = initial_session"
    "fst (terminate_debugger_body demo_lldb ?after)
       = ''No active debugger session to terminate.''"
    "terminate_debugger demo_runtime demo_lldb [] [] debugging_world
       = logged demo_runtime ''terminate_debugger'' [] [] debugging_world
           (fst (terminate_debugger_body demo_lldb debugging_world))
           (fst (terminate_debugger_body demo_lldb debugging_world)) ?after"
    by blast+
  from b terminate_debugger_idempotent [of demo_lldb fresh_world demo_runtime]
  have fresh: "terminate_debugger_body demo_lldb fresh_world
                 = (''No active debugger session to terminate.'', fresh_world)"
    "terminate_debugger demo_runtime demo_lldb [] [] fresh_world
       = logged demo_runtime ''terminate_debugger'' [] [] fresh_world
           (fst (terminate_debugger_body demo_lldb fresh_world))
           (fst (terminate_debugger_body demo_lldb fresh_world))
           (snd (terminate_debugger_body demo_lldb fresh_world))"
    by blast+
  from terminate_debugger_idempotent [of demo_lldb ?after demo_runtime]
  have second: "terminate_debugger demo_runtime demo_lldb [] [] ?after
       = logged demo_runtime ''terminate_debugger'' [] [] ?after
           (fst (terminate_debugger_body demo_lldb ?after))
           (fst (terminate_debugger_body demo_lldb ?after))
           (snd (terminate_debugger_body demo_lldb ?after))"
    by blast
  from a b show ?thesis
    by (simp add: first fresh second p logged_prints)
qed

section \<open>The breakpoint command\<close>

lemma split_str_first_colon:
  "sep \<in> set s \<Longrightarrow>
     split_str sep s
       = takeWhile (\<lambda>c. c \<noteq> sep) s # split_str sep (tl (dropWhile (\<lambda>c. c \<noteq> sep) s))"
  by (induction s) auto

lemma split_str_hd:
  "\<exists>ps. split_str sep s = takeWhile (\<lambda>c. c \<noteq> sep) s # ps"
  by (induction s) auto

lemma getitem_split_str_0:
  "getitem (split_str sep s) 0 = Inr (takeWhile (\<lambda>c. c \<noteq> sep) s)"
proof -
  obtain ps where "split_str sep s = takeWhile (\<lambda>c. c \<noteq> sep) s # ps"
    using split_str_hd by blast
  then show ?thesis by (simp add: getitem_def)
qed

lemma getitem_split_str_1:
  assumes "sep \<in> set s"
  shows "getitem (split_str sep s) (Suc 0)
           = Inr (takeWhile (\<lambda>c. c \<noteq> sep) (tl (dropWhile (\<lambda>c. c \<noteq> sep) s)))"
proof -
  obtain ps where "split_str sep (tl (dropWhile (\<lambda>c. c \<noteq> sep) s))
                     = takeWhile (\<lambda>c. c \<noteq> sep) (tl (dropWhile (\<lambda>c. c \<noteq> sep) s)) # ps"
    using split_str_hd by blast
  with split_str_first_colon [OF assms] show ?thesis by (simp add: getitem_def)
qed

lemma startswith_take: "startswith p s = (take (length p) s = p)"
  by (induction p s rule: startswith.induct) auto

lemma startswith_0x: "startswith ''0x'' s = (take 2 s = ''0x'')"
  by (simp add: startswith_take numeral_2_eq_2)

text \<open>
  Neither index raises: the command is always built, and it is the base command of the
  first matching kind followed by the condition clause.
\<close>

lemma breakpoint_cmd_eq:
  "breakpoint_cmd location condition =
     Inr ((if CHR '':'' \<in> set location then
             ''breakpoint set --file '' @ before_first_colon location
               @ '' --line '' @ before_first_colon (after_first_colon location)
           else if take 2 location = ''0x'' then ''breakpoint set --address '' @ location
           else ''breakpoint set --name '' @ location)
          @ condition_clause condition)"
  by (simp add: breakpoint_cmd_def getitem_split_str_0 getitem_split_str_1 startswith_0x
      before_first_colon_def after_first_colon_def condition_clause_def
      del: startswith.simps)

text \<open>
  Claim C3, as the specification words it, makes the line part everything after the first
  colon. The program takes the second piece of \<^verbatim>\<open>location.split(':')\<close>, which ends at the
  second colon: for \<^verbatim>\<open>main.cpp:42:7\<close> the line part is \<^verbatim>\<open>42\<close>, not \<^verbatim>\<open>42:7\<close>.
\<close>

theorem breakpoint_cmd_line_part_counterexample:
  "breakpoint_cmd ''main.cpp:42:7'' [] = Inr ''breakpoint set --file main.cpp --line 42''
   \<and> after_first_colon ''main.cpp:42:7'' = ''42:7''
   \<and> breakpoint_cmd ''main.cpp:42:7'' []
       \<noteq> Inr (''breakpoint set --file '' @ before_first_colon ''main.cpp:42:7''
                @ '' --line '' @ after_first_colon ''main.cpp:42:7'')"
  by (simp add: breakpoint_cmd_def getitem_def before_first_colon_def after_first_colon_def)

text \<open>
  Claim C3, amended. For every location and condition the command is built with this
  precedence: if the location contains a colon, a by-file-line command whose file part is
  the text before the first colon and whose line part is the text between the first colon
  and the next colon (or the end of the location when there is no second colon);
  otherwise, if the location starts with \<^verbatim>\<open>0x\<close>, a by-address command; otherwise a by-name
  command from the whole location. A non-empty condition is appended as a condition
  clause, an empty one appends nothing.
\<close>

theorem breakpoint_cmd_precedence:
  "breakpoint_cmd location condition =
     Inr ((if CHR '':'' \<in> set location then
             ''breakpoint set --file '' @ before_first_colon location
               @ '' --line '' @ before_first_colon (after_first_colon location)
           else if take 2 location = ''0x'' then ''breakpoint set --address '' @ location
           else ''breakpoint set --name '' @ location)
          @ condition_clause condition)
   \<and> (condition \<noteq> [] \<longrightarrow>
        condition_clause condition = '' --condition '' @ apostrophe @ condition @ apostrophe)
   \<and> (condition = [] \<longrightarrow> condition_clause condition = [])"
  by (simp add: breakpoint_cmd_eq condition_clause_def)

theorem breakpoint_cmd_precedence_witness:
  "breakpoint_cmd ''main.cpp:42'' ''x > 10''
     = Inr (''breakpoint set --file main.cpp --line 42 --condition ''
            @ apostrophe @ ''x > 10'' @ apostrophe)
   \<and> breakpoint_cmd ''0x1000'' [] = Inr ''breakpoint set --address 0x1000''
   \<and> breakpoint_cmd ''main'' [] = Inr ''breakpoint set --name main''
   \<and> breakpoint_cmd ''MyClass::myMethod'' [] = Inr ''breakpoint set --file MyClass --line ''"
  using breakpoint_cmd_precedence [of "''main.cpp:42''" "''x > 10''"]
    breakpoint_cmd_precedence [of "''0x1000''" "[]"]
    breakpoint_cmd_precedence [of "''main''" "[]"]
    breakpoint_cmd_precedence [of "''MyClass::myMethod''" "[]"]
  by (simp add: before_first_colon_def after_first_colon_def condition_clause_def)

section \<open>Setting a breakpoint\<close>

lemma run_lldb_command_func_result:
  "fst (run_lldb_command_func L command w) =
     (if \<not> truthy L (calls w) (interpreter (debugger_state w))
         \<or> \<not> truthy L (calls w) (target (debugger_state w)) then
        [(''error'', not_initialized_message), (''lldb_output'', []), (''program_stdout'', [])]
      else
        [(''command'', command),
         (''lldb_output'',
            GetOutput (on_HandleCommand L (calls w) command)
              @ (if Succeeded (on_HandleCommand L (calls w) command) then []
                 else GetError (on_HandleCommand L (calls w) command))),
         (''program_stdout'',
            (if proc_IsValid (on_GetProcess L (calls w @ [HandleCommand command]))
             then stdout_buffer (on_GetProcess L (calls w @ [HandleCommand command]))
             else []))])"
proof -
  have "fst (case drain_stdout buf [] tr of (out, tr') \<Rightarrow> (f out, g tr')) = f buf"
    for buf tr and f :: "string \<Rightarrow> str_dict" and g :: "api_call list \<Rightarrow> world"
    using drain_stdout_output [of buf "[]" tr] by (cases "drain_stdout buf [] tr") simp
  then show ?thesis
    by (simp add: run_lldb_command_func_def add_call_def Let_def)
qed

lemma set_breakpoint_body_result:
  assumes "truthy L (calls w) (interpreter (debugger_state w))"
  shows "fst (set_breakpoint_body L location condition w) =
           (case breakpoint_cmd location condition of
              Inl e \<Rightarrow> Inl e
            | Inr cmd \<Rightarrow>
                Inr [(''success'',
                        PBool (str_contains ''Breakpoint''
                                 (dict_get (fst (run_lldb_command_func L cmd w)) ''lldb_output'' [])
                               \<and> \<not> has_key (fst (run_lldb_command_func L cmd w)) ''error'')),
                     (''message'',
                        PStr (if str_contains ''Breakpoint''
                                   (dict_get (fst (run_lldb_command_func L cmd w)) ''lldb_output'' [])
                                 \<and> \<not> has_key (fst (run_lldb_command_func L cmd w)) ''error''
                              then ''Breakpoint set at '' @ location
                              else ''Failed to set breakpoint'')),
                     (''lldb_output'',
                        PStr (dict_get (fst (run_lldb_command_func L cmd w)) ''lldb_output'' [])),
                     (''condition'', PStr (if condition \<noteq> [] then condition else ''None''))])"
  using assms by (simp add: set_breakpoint_body_def Let_def split: sum.splits prod.splits)

lemma set_breakpoint_body_returns:
  "\<exists>d w1. set_breakpoint_body L location condition w = (Inr d, w1)"
proof -
  obtain cmd where "breakpoint_cmd location condition = Inr cmd"
    by (simp add: breakpoint_cmd_eq)
  then show ?thesis
    by (cases "run_lldb_command_func L cmd w") (simp add: set_breakpoint_body_def Let_def)
qed

text \<open>
  Claim C9. On a session whose interpreter handle is set, the body of \<^verbatim>\<open>set_breakpoint\<close>
  builds the command, runs it, and returns a record that reports \<^verbatim>\<open>success\<close> true exactly
  when the \<^verbatim>\<open>lldb_output\<close> of the command result contains \<^verbatim>\<open>Breakpoint\<close> and the result has
  no \<^verbatim>\<open>error\<close> key; the message is \<^verbatim>\<open>Breakpoint set at <location>\<close> on success and
  \<^verbatim>\<open>Failed to set breakpoint\<close> otherwise. With the target handle set as well, that is
  exactly when the output of the interpreter (with its error text appended if the command
  failed) contains \<^verbatim>\<open>Breakpoint\<close>; without it the command result carries the error key and
  success is false. The tool, called with arguments that fit its parameters, is that
  body, logged: the record it returns is this one.
\<close>

theorem set_breakpoint_success:
  assumes "bind_params [(''location'', None), (''condition'', Some [])] args kwargs
             = Inr [location, condition]"
    and "truthy L (calls w) (interpreter (debugger_state w))"
  shows "\<exists>cmd result w1 success.
           breakpoint_cmd location condition = Inr cmd
           \<and> run_lldb_command_func L cmd w = (result, w1)
           \<and> success = (str_contains ''Breakpoint'' (dict_get result ''lldb_output'' [])
                        \<and> \<not> has_key result ''error'')
           \<and> (\<exists>d. set_breakpoint_body L location condition w = (Inr d, w1)
                 \<and> set_breakpoint R L args kwargs w
                     = logged R ''set_breakpoint'' args kwargs w (dict_to_str R d) d w1
                 \<and> map_of d ''success'' = Some (PBool success)
                 \<and> map_of d ''message''
                     = Some (PStr (if success then ''Breakpoint set at '' @ location
                                   else ''Failed to set breakpoint''))
                 \<and> map_of d ''lldb_output'' = Some (PStr (dict_get result ''lldb_output'' [])))
           \<and> (truthy L (calls w) (target (debugger_state w)) \<longrightarrow>
                success = str_contains ''Breakpoint''
                            (GetOutput (on_HandleCommand L (calls w) cmd)
                               @ (if Succeeded (on_HandleCommand L (calls w) cmd) then []
                                  else GetError (on_HandleCommand L (calls w) cmd))))
           \<and> (\<not> truthy L (calls w) (target (debugger_state w)) \<longrightarrow> \<not> success)"
proof -
  obtain cmd where cmd: "breakpoint_cmd location condition = Inr cmd"
    by (simp add: breakpoint_cmd_eq)
  obtain result w1 where run: "run_lldb_command_func L cmd w = (result, w1)"
    by (cases "run_lldb_command_func L cmd w")
  have result: "result = fst (run_lldb_command_func L cmd w)"
    by (simp add: run)
  define success where
    "success = (str_contains ''Breakpoint'' (dict_get result ''lldb_output'' [])
                \<and> \<not> has_key result ''error'')"
  define d where
    "d = [(''success'', PBool success),
          (''message'', PStr (if success then ''Breakpoint set at '' @ location
                              else ''Failed to set breakpoint'')),
          (''lldb_output'', PStr (dict_get result ''lldb_output'' [])),
          (''condition'', PStr (if condition \<noteq> [] then condition else ''None''))]"
  have body: "set_breakpoint_body L location condition w = (Inr d, w1)"
    using assms(2) by (simp add: set_breakpoint_body_def cmd run success_def d_def Let_def)
  have tool: "set_breakpoint R L args kwargs w
                = logged R ''set_breakpoint'' args kwargs w (dict_to_str R d) d w1"
    using assms(1) body by (rule set_breakpoint_logged)
  have fields: "map_of d ''success'' = Some (PBool success)
                \<and> map_of d ''message''
                    = Some (PStr (if success then ''Breakpoint set at '' @ location
                                  else ''Failed to set breakpoint''))
                \<and> map_of d ''lldb_output'' = Some (PStr (dict_get result ''lldb_output'' []))"
    by (simp add: d_def)
  have with_target: "truthy L (calls w) (target (debugger_state w)) \<longrightarrow>
                success = str_contains ''Breakpoint''
                            (GetOutput (on_HandleCommand L (calls w) cmd)
                               @ (if Succeeded (on_HandleCommand L (calls w) cmd) then []
                                  else GetError (on_HandleCommand L (calls w) cmd)))"
    using assms(2)
    by (simp add: success_def result run_lldb_command_func_result dict_get_def has_key_def)
  have without_target: "\<not> truthy L (calls w) (target (debugger_state w)) \<longrightarrow> \<not> success"
    by (simp add: success_def result run_lldb_command_func_result dict_get_def has_key_def)
  from cmd run success_def body tool fields with_target without_target show ?thesis
    by blast
qed

theorem set_breakpoint_success_witness:
  "bind_params [(''location'', None), (''condition'', Some [])] [''main''] []
     = Inr [''main'', []]
   \<and> truthy demo_lldb (calls debugging_world) (interpreter (debugger_state debugging_world))
   \<and> fst (set_breakpoint demo_runtime demo_lldb [''main''] [] debugging_world)
       = Inr [(''success'', PBool True),
              (''message'', PStr ''Breakpoint set at main''),
              (''lldb_output'', PStr ''Breakpoint 1: where = ls`main, address = 0x1000''),
              (''condition'', PStr ''None'')]
   \<and> fst (set_breakpoint demo_runtime failing_lldb [''main''] [] debugging_world)
       = Inr [(''success'', PBool False),
              (''message'', PStr ''Failed to set breakpoint''),
              (''lldb_output'', PStr ''error: no such function''),
              (''condition'', PStr ''None'')]"
proof -
  let ?good = "[(''success'', PBool True),
              (''message'', PStr ''Breakpoint set at main''),
              (''lldb_output'', PStr ''Breakpoint 1: where = ls`main, address = 0x1000''),
              (''condition'', PStr ''None'')]"
  let ?bad = "[(''success'', PBool False),
              (''message'', PStr ''Failed to set breakpoint''),
              (''lldb_output'', PStr ''error: no such function''),
              (''condition'', PStr ''None'')]"
  have fits: "bind_params [(''location'', None), (''condition'', Some [])] [''main''] []
                = Inr [''main'', []]"
    by (simp add: has_key_def)
  have h: "truthy demo_lldb (calls debugging_world) (interpreter (debugger_state debugging_world))"
    "truthy failing_lldb (calls debugging_world) (interpreter (debugger_state debugging_world))"
    by (simp_all add: truthy_def debugging_world_def demo_lldb_def failing_lldb_def)
  have t: "truthy demo_lldb (calls debugging_world) (target (debugger_state debugging_world))"
    "truthy failing_lldb (calls debugging_world) (target (debugger_state debugging_world))"
    by (simp_all add: truthy_def debugging_world_def demo_lldb_def failing_lldb_def)
  have p_in: "console_print demo_runtime (input_line demo_runtime ''set_breakpoint'' [''main''] [])
                = None"
    by (rule demo_runtime_prints)
       (simp add: input_line_def demo_runtime_def py_quote_def apostrophe_def)
  have p_good: "console_print demo_runtime (output_line (dict_to_str demo_runtime ?good)) = None"
    by (rule demo_runtime_prints)
       (simp add: output_line_def demo_runtime_def py_quote_def show_pyval_def apostrophe_def)
  have p_bad: "console_print demo_runtime (output_line (dict_to_str demo_runtime ?bad)) = None"
    by (rule demo_runtime_prints)
       (simp add: output_line_def demo_runtime_def py_quote_def show_pyval_def apostrophe_def)
  have body_good: "fst (set_breakpoint_body demo_lldb ''main'' [] debugging_world) = Inr ?good"
    using h t
    by (simp add: set_breakpoint_body_result breakpoint_cmd_eq run_lldb_command_func_result
        condition_clause_def dict_get_def has_key_def demo_lldb_def)
  have body_bad: "fst (set_breakpoint_body failing_lldb ''main'' [] debugging_world) = Inr ?bad"
    using h t
    by (simp add: set_breakpoint_body_result breakpoint_cmd_eq run_lldb_command_func_result
        condition_clause_def dict_get_def has_key_def failing_lldb_def demo_lldb_def)
  from set_breakpoint_success [OF fits h(1), of demo_runtime] body_good
  have good: "fst (set_breakpoint demo_runtime demo_lldb [''main''] [] debugging_world)
                = Inr ?good"
    using p_in p_good by (auto simp add: logged_prints)
  from set_breakpoint_success [OF fits h(2), of demo_runtime] body_bad
  have bad: "fst (set_breakpoint demo_runtime failing_lldb [''main''] [] debugging_world)
                = Inr ?bad"
    using p_in p_bad by (auto simp add: logged_prints)
  from fits h(1) good bad show ?thesis
    by simp
qed

text \<open>
  Claim C10, as stated, speaks of every call. On a session without an interpreter handle
  \<^verbatim>\<open>set_breakpoint\<close> returns early, and the record it returns has no \<^verbatim>\<open>condition\<close> key.
\<close>

theorem set_breakpoint_condition_counterexample:
  "uninitialized (debugger_state fresh_world)
   \<and> fst (set_breakpoint demo_runtime demo_lldb [''main''] [] fresh_world)
       = Inr [(''success'', PBool False),
              (''message'', PStr not_initialized_message),
              (''lldb_output'', PStr [])]
   \<and> \<not> has_key [(''success'', PBool False),
                 (''message'', PStr not_initialized_message),
                 (''lldb_output'', PStr [])] ''condition''"
proof -
  let ?d = "[(''success'', PBool False),
             (''message'', PStr not_initialized_message),
             (''lldb_output'', PStr [])]"
  have fits: "bind_params [(''location'', None), (''condition'', Some [])] [''main''] []
                = Inr [''main'', []]"
    by (simp add: has_key_def)
  have body: "set_breakpoint_body demo_lldb ''main'' [] fresh_world = (Inr ?d, fresh_world)"
    by (simp add: set_breakpoint_body_def fresh_world_def initial_session_def truthy_def)
  have p_in: "console_print demo_runtime (input_line demo_runtime ''set_breakpoint'' [''main''] [])
                = None"
    by (rule demo_runtime_prints)
       (simp add: input_line_def demo_runtime_def py_quote_def apostrophe_def)
  have p_out: "console_print demo_runtime (output_line (dict_to_str demo_runtime ?d)) = None"
    by (rule demo_runtime_prints)
       (simp add: output_line_def demo_runtime_def py_quote_def show_pyval_def apostrophe_def
          not_initialized_message_def)
  have "set_breakpoint demo_runtime demo_lldb [''main''] [] fresh_world = (Inr ?d, fresh_world)"
    by (simp add: set_breakpoint_logged [OF fits body] logged_prints p_in p_out)
  then show ?thesis
    by (simp add: uninitialized_def fresh_world_def has_key_def)
qed

text \<open>
  Claim C10, amended. For every call to \<^verbatim>\<open>set_breakpoint\<close> on a session whose interpreter
  handle is set, the \<^verbatim>\<open>condition\<close> field of the returned record is the supplied condition
  when that is non-empty and the string \<^verbatim>\<open>None\<close> when it is empty; on a session without
  an interpreter handle the returned record has no \<^verbatim>\<open>condition\<close> field. The returned
  record is the one of the body, which the decorator hands back.
\<close>

theorem set_breakpoint_condition:
  assumes "bind_params [(''location'', None), (''condition'', Some [])] args kwargs
             = Inr [location, condition]"
  shows "(truthy L (calls w) (interpreter (debugger_state w)) \<longrightarrow>
            (\<exists>d w1. set_breakpoint_body L location condition w = (Inr d, w1)
               \<and> set_breakpoint R L args kwargs w
                   = logged R ''set_breakpoint'' args kwargs w (dict_to_str R d) d w1
               \<and> map_of d ''condition''
                   = Some (PStr (if condition \<noteq> [] then condition else ''None''))))
         \<and> (\<not> truthy L (calls w) (interpreter (debugger_state w)) \<longrightarrow>
            (\<exists>d. set_breakpoint_body L location condition w = (Inr d, w)
               \<and> set_breakpoint R L args kwargs w
                   = logged R ''set_breakpoint'' args kwargs w (dict_to_str R d) d w
               \<and> map_of d ''condition'' = None))"
proof -
  obtain d w1 where body: "set_breakpoint_body L location condition w = (Inr d, w1)"
    using set_breakpoint_body_returns by blast
  have tool: "set_breakpoint R L args kwargs w
                = logged R ''set_breakpoint'' args kwargs w (dict_to_str R d) d w1"
    using assms body by (rule set_breakpoint_logged)
  have set: "truthy L (calls w) (interpreter (debugger_state w)) \<Longrightarrow>
               map_of d ''condition''
                 = Some (PStr (if condition \<noteq> [] then condition else ''None''))"
    using body set_breakpoint_body_result [of L w location condition]
    by (auto simp add: breakpoint_cmd_eq)
  have unset: "\<not> truthy L (calls w) (interpreter (debugger_state w)) \<Longrightarrow>
                 w1 = w \<and> map_of d ''condition'' = None"
    using body by (auto simp add: set_breakpoint_body_def)
  from body tool set unset show ?thesis
    by blast
qed

theorem set_breakpoint_condition_witness:
  "bind_params [(''location'', None), (''condition'', Some [])] [''main'']
     [(''condition'', ''x > 10'')] = Inr [''main'', ''x > 10'']
   \<and> truthy demo_lldb (calls debugging_world) (interpreter (debugger_state debugging_world))
   \<and> (\<exists>d w1. set_breakpoint_body demo_lldb ''main'' ''x > 10'' debugging_world = (Inr d, w1)
          \<and> map_of d ''condition'' = Some (PStr ''x > 10''))
   \<and> \<not> truthy demo_lldb (calls fresh_world) (interpreter (debugger_state fresh_world))
   \<and> (\<exists>d. set_breakpoint_body demo_lldb ''main'' ''x > 10'' fresh_world = (Inr d, fresh_world)
          \<and> map_of d ''condition'' = None)"
proof -
  have fits: "bind_params [(''location'', None), (''condition'', Some [])] [''main'']
                [(''condition'', ''x > 10'')] = Inr [''main'', ''x > 10'']"
    by (simp add: has_key_def)
  have h: "truthy demo_lldb (calls debugging_world) (interpreter (debugger_state debugging_world))"
    by (simp add: truthy_def debugging_world_def demo_lldb_def)
  have n: "\<not> truthy demo_lldb (calls fresh_world) (interpreter (debugger_state fresh_world))"
    by (simp add: truthy_def fresh_world_def initial_session_def)
  from h n fits
    set_breakpoint_condition [OF fits, of demo_lldb debugging_world demo_runtime]
    set_breakpoint_condition [OF fits, of demo_lldb fresh_world demo_runtime]
  show ?thesis by auto
qed

section \<open>The status report\<close>

lemma state_name_cases:
  "state_name L st \<in> set vocabulary \<or> state_name L st = ''unknown''"
  by (simp add: state_name_def state_names_def vocabulary_def)

lemma state_name_unknown:
  "st \<notin> fst ` set (state_names L) \<Longrightarrow> state_name L st = ''unknown''"
  by (simp add: state_name_def state_names_def)

lemma state_name_known:
  assumes "distinct (map fst (state_names L))" and "(k, n) \<in> set (state_names L)"
  shows "state_name L k = n"
proof -
  have "distinct (map fst (rev (state_names L)))"
    using assms(1) by (simp add: rev_map [symmetric])
  moreover have "(k, n) \<in> set (rev (state_names L))"
    using assms(2) by simp
  ultimately have "map_of (rev (state_names L)) k = Some n"
    by (rule map_of_is_SomeI)
  then show ?thesis by (simp add: state_name_def)
qed

lemma get_debugger_status_with_process:
  assumes "truthy L (calls w) (debugger (debugger_state w))"
    and "truthy L (calls w) (target (debugger_state w))"
    and "proc_IsValid (on_GetProcess L (calls w))"
  shows "fst (get_debugger_status_body L w) =
           [(''initialized'', PBool True),
            (''filename'', opt_str (filename (debugger_state w))),
            (''arch'', opt_str (arch (debugger_state w))),
            (''process_state'', PStr (state_name L (GetState (on_GetProcess L (calls w))))),
            (''process_id'', PInt (GetProcessID (on_GetProcess L (calls w))))]"
  using assms by (simp add: get_debugger_status_body_def Let_def)

lemma get_debugger_status_without_process:
  assumes "truthy L (calls w) (debugger (debugger_state w))"
    and "\<not> (truthy L (calls w) (target (debugger_state w))
            \<and> proc_IsValid (on_GetProcess L (calls w)))"
  shows "fst (get_debugger_status_body L w) =
           [(''initialized'', PBool True),
            (''filename'', opt_str (filename (debugger_state w))),
            (''arch'', opt_str (arch (debugger_state w))),
            (''process_state'', PStr ''No process''),
            (''process_id'', PNone)]"
  using assms by (auto simp add: get_debugger_status_body_def Let_def)

lemma get_debugger_status_uninitialized:
  assumes "\<not> truthy L (calls w) (debugger (debugger_state w))"
  shows "get_debugger_status_body L w =
           ([(''initialized'', PBool False),
             (''filename'', PNone),
             (''arch'', PNone),
             (''process_state'', PStr ''No debugger initialized'')], w)"
  using assms by (simp add: get_debugger_status_body_def)

text \<open>
  Claim C8. In a session with a valid process, the \<^verbatim>\<open>process_state\<close> in the record of
  \<^verbatim>\<open>get_debugger_status\<close> is a string: the name that \<^verbatim>\<open>state_names\<close> gives the state value
  of the engine, which is one of the twelve words of the vocabulary, or \<^verbatim>\<open>unknown\<close> for
  every value that is none of the twelve constants. The raw value is never reported. When
  the twelve constants are distinct, as they are in LLDB, each is reported under its own
  name. The tool is the body, logged: the record it returns is this one.
\<close>

theorem process_state_vocabulary:
  assumes "initialized L w"
    and "truthy L (calls w) (target (debugger_state w))"
    and "proc_IsValid (on_GetProcess L (calls w))"
  shows "\<exists>n. map_of (fst (get_debugger_status_body L w)) ''process_state'' = Some (PStr n)
             \<and> n = state_name L (GetState (on_GetProcess L (calls w)))
             \<and> (n \<in> set vocabulary \<or> n = ''unknown'')
             \<and> (GetState (on_GetProcess L (calls w)) \<notin> fst ` set (state_names L)
                  \<longrightarrow> n = ''unknown'')
             \<and> (distinct (map fst (state_names L)) \<longrightarrow>
                  (\<forall>(k, v) \<in> set (state_names L).
                     GetState (on_GetProcess L (calls w)) = k \<longrightarrow> n = v))
             \<and> get_debugger_status R L [] [] w
                 = logged R ''get_debugger_status'' [] [] w
                     (dict_to_str R (fst (get_debugger_status_body L w)))
                     (fst (get_debugger_status_body L w))
                     (snd (get_debugger_status_body L w))"
proof -
  let ?st = "GetState (on_GetProcess L (calls w))"
  have "map_of (fst (get_debugger_status_body L w)) ''process_state''
          = Some (PStr (state_name L ?st))"
    using assms by (simp add: get_debugger_status_with_process initialized_def)
  moreover have "state_name L ?st \<in> set vocabulary \<or> state_name L ?st = ''unknown''"
    by (rule state_name_cases)
  moreover have "?st \<notin> fst ` set (state_names L) \<longrightarrow> state_name L ?st = ''unknown''"
    using state_name_unknown by blast
  moreover have "distinct (map fst (state_names L)) \<longrightarrow>
                  (\<forall>(k, v) \<in> set (state_names L). ?st = k \<longrightarrow> state_name L ?st = v)"
    using state_name_known by blast
  moreover note get_debugger_status_logged [of R L w]
  ultimately show ?thesis by blast
qed

theorem process_state_vocabulary_witness:
  "initialized demo_lldb debugging_world
   \<and> truthy demo_lldb (calls debugging_world) (target (debugger_state debugging_world))
   \<and> proc_IsValid (on_GetProcess demo_lldb (calls debugging_world))
   \<and> fst (get_debugger_status demo_runtime demo_lldb [] [] debugging_world)
       = Inr [(''initialized'', PBool True),
              (''filename'', PStr ''/bin/ls''),
              (''arch'', PStr ''x86_64''),
              (''process_state'', PStr ''stopped''),
              (''process_id'', PInt 4242)]
   \<and> ''stopped'' \<in> set vocabulary"
proof -
  let ?d = "[(''initialized'', PBool True),
             (''filename'', PStr ''/bin/ls''),
             (''arch'', PStr ''x86_64''),
             (''process_state'', PStr ''stopped''),
             (''process_id'', PInt 4242)]"
  have a: "initialized demo_lldb debugging_world"
    by (simp add: initialized_def truthy_def debugging_world_def demo_lldb_def)
  have b: "truthy demo_lldb (calls debugging_world) (target (debugger_state debugging_world))"
    by (simp add: truthy_def debugging_world_def demo_lldb_def)
  have c: "proc_IsValid (on_GetProcess demo_lldb (calls debugging_world))"
    by (simp add: demo_lldb_def)
  have "state_name demo_lldb (GetState (on_GetProcess demo_lldb (calls debugging_world)))
          = ''stopped''"
    by (simp add: state_name_def state_names_def demo_lldb_def)
  moreover have "GetProcessID (on_GetProcess demo_lldb (calls debugging_world)) = 4242"
    by (simp add: demo_lldb_def)
  moreover have "filename (debugger_state debugging_world) = Some ''/bin/ls''"
    "arch (debugger_state debugging_world) = Some ''x86_64''"
    by (simp_all add: debugging_world_def)
  ultimately have body: "fst (get_debugger_status_body demo_lldb debugging_world) = ?d"
    using a b c by (simp add: get_debugger_status_with_process initialized_def opt_str_def)
  have p_in: "console_print demo_runtime (input_line demo_runtime ''get_debugger_status'' [] [])
                = None"
    by (rule demo_runtime_prints)
       (simp add: input_line_def demo_runtime_def apostrophe_def)
  have p_out: "console_print demo_runtime (output_line (dict_to_str demo_runtime ?d)) = None"
    by (rule demo_runtime_prints)
       (simp add: output_line_def demo_runtime_def py_quote_def show_pyval_def apostrophe_def
          show_nat.simps)
  from process_state_vocabulary [OF a b c, of demo_runtime] body p_in p_out
  have "fst (get_debugger_status demo_runtime demo_lldb [] [] debugging_world) = Inr ?d"
    by (auto simp add: logged_prints)
  with a b c show ?thesis
    by (simp add: vocabulary_def)
qed

text \<open>
  Claim C7, as stated, gives the record the five fields always. In an Uninitialized
  session the record has four: there is no \<^verbatim>\<open>process_id\<close> key.
\<close>

theorem get_debugger_status_fields_counterexample:
  "uninitialized (debugger_state fresh_world)
   \<and> fst (get_debugger_status demo_runtime demo_lldb [] [] fresh_world)
       = Inr [(''initialized'', PBool False), (''filename'', PNone), (''arch'', PNone),
              (''process_state'', PStr ''No debugger initialized'')]
   \<and> \<not> has_key [(''initialized'', PBool False), (''filename'', PNone), (''arch'', PNone),
                 (''process_state'', PStr ''No debugger initialized'')] ''process_id''"
proof -
  let ?d = "[(''initialized'', PBool False), (''filename'', PNone), (''arch'', PNone),
             (''process_state'', PStr ''No debugger initialized'')]"
  have body: "get_debugger_status_body demo_lldb fresh_world = (?d, fresh_world)"
    by (simp add: get_debugger_status_body_def fresh_world_def initial_session_def truthy_def)
  have p_in: "console_print demo_runtime (input_line demo_runtime ''get_debugger_status'' [] [])
                = None"
    by (rule demo_runtime_prints)
       (simp add: input_line_def demo_runtime_def apostrophe_def)
  have p_out: "console_print demo_runtime (output_line (dict_to_str demo_runtime ?d)) = None"
    by (rule demo_runtime_prints)
       (simp add: output_line_def demo_runtime_def py_quote_def show_pyval_def apostrophe_def)
  have "get_debugger_status demo_runtime demo_lldb [] [] fresh_world = (Inr ?d, fresh_world)"
    by (simp add: get_debugger_status_logged body logged_prints p_in p_out)
  then show ?thesis
    by (simp add: uninitialized_def fresh_world_def has_key_def)
qed

text \<open>
  Claim C7, amended. In a session that is not Initialized, the record of
  \<^verbatim>\<open>get_debugger_status\<close> has the four fields \<^verbatim>\<open>initialized\<close> (false), \<^verbatim>\<open>filename\<close> and
  \<^verbatim>\<open>arch\<close> (both null) and \<^verbatim>\<open>process_state\<close> (the fixed string
  \<^verbatim>\<open>No debugger initialized\<close>), and no \<^verbatim>\<open>process_id\<close>. In an Initialized session it has the
  five fields \<^verbatim>\<open>initialized\<close> (true), \<^verbatim>\<open>filename\<close>, \<^verbatim>\<open>arch\<close> (as stored), \<^verbatim>\<open>process_state\<close> and
  \<^verbatim>\<open>process_id\<close>; when there is no valid process, \<^verbatim>\<open>process_state\<close> is \<^verbatim>\<open>No process\<close> and
  \<^verbatim>\<open>process_id\<close> is null. The tool is the body, logged: the record it returns is this one.
\<close>

theorem get_debugger_status_fields:
  "(\<not> initialized L w \<longrightarrow>
      get_debugger_status_body L w =
        ([(''initialized'', PBool False),
          (''filename'', PNone),
          (''arch'', PNone),
          (''process_state'', PStr ''No debugger initialized'')], w))
   \<and> (initialized L w \<longrightarrow>
        map fst (fst (get_debugger_status_body L w))
          = [''initialized'', ''filename'', ''arch'', ''process_state'', ''process_id'']
        \<and> map_of (fst (get_debugger_status_body L w)) ''initialized'' = Some (PBool True)
        \<and> map_of (fst (get_debugger_status_body L w)) ''filename''
            = Some (opt_str (filename (debugger_state w)))
        \<and> map_of (fst (get_debugger_status_body L w)) ''arch''
            = Some (opt_str (arch (debugger_state w)))
        \<and> (\<not> (truthy L (calls w) (target (debugger_state w))
                \<and> proc_IsValid (on_GetProcess L (calls w)))
              \<longrightarrow> map_of (fst (get_debugger_status_body L w)) ''process_state''
                    = Some (PStr ''No process'')
                  \<and> map_of (fst (get_debugger_status_body L w)) ''process_id'' = Some PNone))
   \<and> get_debugger_status R L [] [] w
       = logged R ''get_debugger_status'' [] [] w
           (dict_to_str R (fst (get_debugger_status_body L w)))
           (fst (get_debugger_status_body L w))
           (snd (get_debugger_status_body L w))"
proof -
  have body: "(\<not> initialized L w \<longrightarrow>
      get_debugger_status_body L w =
        ([(''initialized'', PBool False),
          (''filename'', PNone),
          (''arch'', PNone),
          (''process_state'', PStr ''No debugger initialized'')], w))
   \<and> (initialized L w \<longrightarrow>
        map fst (fst (get_debugger_status_body L w))
          = [''initialized'', ''filename'', ''arch'', ''process_state'', ''process_id'']
        \<and> map_of (fst (get_debugger_status_body L w)) ''initialized'' = Some (PBool True)
        \<and> map_of (fst (get_debugger_status_body L w)) ''filename''
            = Some (opt_str (filename (debugger_state w)))
        \<and> map_of (fst (get_debugger_status_body L w)) ''arch''
            = Some (opt_str (arch (debugger_state w)))
        \<and> (\<not> (truthy L (calls w) (target (debugger_state w))
                \<and> proc_IsValid (on_GetProcess L (calls w)))
              \<longrightarrow> map_of (fst (get_debugger_status_body L w)) ''process_state''
                    = Some (PStr ''No process'')
                  \<and> map_of (fst (get_debugger_status_body L w)) ''process_id'' = Some PNone))"
  proof (cases "initialized L w")
    case False
    then show ?thesis
      by (simp add: initialized_def get_debugger_status_uninitialized)
  next
    case True
    then have dbg: "truthy L (calls w) (debugger (debugger_state w))"
      by (simp add: initialized_def)
    show ?thesis
    proof (cases "truthy L (calls w) (target (debugger_state w))
                  \<and> proc_IsValid (on_GetProcess L (calls w))")
      case True
      with dbg \<open>initialized L w\<close> show ?thesis
        by (simp add: get_debugger_status_with_process)
    next
      case False
      with dbg \<open>initialized L w\<close> show ?thesis
        by (simp add: get_debugger_status_without_process)
    qed
  qed
  with get_debugger_status_logged [of R L w] show ?thesis
    by blast
qed

theorem get_debugger_status_fields_witness:
  "\<not> initialized demo_lldb fresh_world
   \<and> fst (get_debugger_status_body demo_lldb fresh_world)
       = [(''initialized'', PBool False), (''filename'', PNone), (''arch'', PNone),
          (''process_state'', PStr ''No debugger initialized'')]
   \<and> initialized no_process_lldb debugging_world
   \<and> \<not> (truthy no_process_lldb (calls debugging_world) (target (debugger_state debugging_world))
          \<and> proc_IsValid (on_GetProcess no_process_lldb (calls debugging_world)))
   \<and> map_of (fst (get_debugger_status_body no_process_lldb debugging_world)) ''filename''
       = Some (PStr ''/bin/ls'')
   \<and> map_of (fst (get_debugger_status_body no_process_lldb debugging_world)) ''arch''
       = Some (PStr ''x86_64'')
   \<and> map_of (fst (get_debugger_status_body no_process_lldb debugging_world)) ''process_state''
       = Some (PStr ''No process'')
   \<and> map_of (fst (get_debugger_status_body no_process_lldb debugging_world)) ''process_id''
       = Some PNone"
proof -
  have a: "\<not> initialized demo_lldb fresh_world"
    by (simp add: initialized_def truthy_def fresh_world_def initial_session_def)
  have b: "initialized no_process_lldb debugging_world"
    by (simp add: initialized_def truthy_def debugging_world_def no_process_lldb_def
        demo_lldb_def)
  have c: "\<not> (truthy no_process_lldb (calls debugging_world)
               (target (debugger_state debugging_world))
          \<and> proc_IsValid (on_GetProcess no_process_lldb (calls debugging_world)))"
    by (simp add: no_process_lldb_def)
  have d: "filename (debugger_state debugging_world) = Some ''/bin/ls''"
    "arch (debugger_state debugging_world) = Some ''x86_64''"
    by (simp_all add: debugging_world_def)
  from get_debugger_status_fields [of demo_lldb fresh_world demo_runtime] a
  have fresh: "fst (get_debugger_status_body demo_lldb fresh_world)
       = [(''initialized'', PBool False), (''filename'', PNone), (''arch'', PNone),
          (''process_state'', PStr ''No debugger initialized'')]"
    by simp
  from get_debugger_status_fields [of no_process_lldb debugging_world demo_runtime] b c
  have "map_of (fst (get_debugger_status_body no_process_lldb debugging_world)) ''filename''
            = Some (opt_str (filename (debugger_state debugging_world)))
        \<and> map_of (fst (get_debugger_status_body no_process_lldb debugging_world)) ''arch''
            = Some (opt_str (arch (debugger_state debugging_world)))
        \<and> map_of (fst (get_debugger_status_body no_process_lldb debugging_world)) ''process_state''
            = Some (PStr ''No process'')
        \<and> map_of (fst (get_debugger_status_body no_process_lldb debugging_world)) ''process_id''
            = Some PNone"
    by blast
  with a b c d fresh show ?thesis
    by (simp add: opt_str_def)
qed

section \<open>Running a command\<close>

lemma run_lldb_command_no_file:
  "run_lldb_command_body L command [] w = run_lldb_command_func L command w"
  by (simp add: run_lldb_command_body_def)

lemma run_lldb_command_open_fails:
  assumes "output_filename \<noteq> []" and "unwritable w output_filename = Some msg"
  shows "run_lldb_command_body L command output_filename w = ([(''error'', msg)], w)"
  using assms by (simp add: run_lldb_command_body_def open_w_def)

lemma run_lldb_command_with_file:
  assumes "output_filename \<noteq> []" and "unwritable w output_filename = None"
  shows "run_lldb_command_body L command output_filename w =
           (fst (run_lldb_command_func L command w),
            (snd (run_lldb_command_func L command w))
              \<lparr>fs := (fs w)(output_filename \<mapsto> File []), open_files := open_files w\<rparr>)"
  using assms
  by (simp add: run_lldb_command_body_def open_w_def run_lldb_command_func_outside
      close_file_def)

lemma run_lldb_command_body_session:
  "debugger_state (snd (run_lldb_command_body L command output_filename w)) = debugger_state w"
proof (cases "output_filename = []")
  case True
  then show ?thesis
    by (simp add: run_lldb_command_no_file run_lldb_command_func_session)
next
  case False
  then show ?thesis
    by (cases "unwritable w output_filename")
       (simp_all add: run_lldb_command_with_file run_lldb_command_open_fails
          run_lldb_command_func_session)
qed

text \<open>
  Claim C1. The file is opened fresh and closed, the result is the one of the call
  without a file, and a file that cannot be opened gives a record with an \<^verbatim>\<open>error\<close> field:
  the three lemmas above. But nothing is ever written to the file. On an initialized
  session whose command prints a line and whose process has output pending, the call
  returns both texts and leaves the named file empty.
\<close>

theorem run_lldb_command_output_file_left_empty:
  "unwritable debugging_world ''/tmp/out.txt'' = None
   \<and> fst (run_lldb_command demo_runtime demo_lldb [''help'', ''/tmp/out.txt''] []
             debugging_world)
       = Inr [(''command'', ''help''),
              (''lldb_output'', ''Breakpoint 1: where = ls`main, address = 0x1000''),
              (''program_stdout'', ''hello'')]
   \<and> fs (snd (run_lldb_command demo_runtime demo_lldb [''help'', ''/tmp/out.txt''] []
                 debugging_world))
        ''/tmp/out.txt'' = Some (File [])
   \<and> open_files (snd (run_lldb_command demo_runtime demo_lldb [''help'', ''/tmp/out.txt''] []
                         debugging_world)) = []"
proof -
  let ?d = "[(''command'', ''help''),
             (''lldb_output'', ''Breakpoint 1: where = ls`main, address = 0x1000''),
             (''program_stdout'', ''hello'')]"
  have w: "unwritable debugging_world ''/tmp/out.txt'' = None"
    by (simp add: debugging_world_def)
  have fits: "bind_params [(''command'', None), (''output_filename'', Some [])]
                [''help'', ''/tmp/out.txt''] [] = Inr [''help'', ''/tmp/out.txt'']"
    by (simp add: has_key_def)
  have t: "truthy demo_lldb (calls debugging_world) (interpreter (debugger_state debugging_world))"
    "truthy demo_lldb (calls debugging_world) (target (debugger_state debugging_world))"
    by (simp_all add: truthy_def debugging_world_def demo_lldb_def)
  have o: "open_files debugging_world = []"
    by (simp add: debugging_world_def)
  have func: "fst (run_lldb_command_func demo_lldb ''help'' debugging_world) = ?d"
    using t by (simp add: run_lldb_command_func_result demo_lldb_def)
  have body: "run_lldb_command_body demo_lldb ''help'' ''/tmp/out.txt'' debugging_world
                = (?d, (snd (run_lldb_command_func demo_lldb ''help'' debugging_world))
                         \<lparr>fs := (fs debugging_world)(''/tmp/out.txt'' \<mapsto> File []),
                          open_files := []\<rparr>)"
    using w o func by (simp add: run_lldb_command_with_file)
  have p_in: "console_print demo_runtime
                (input_line demo_runtime ''run_lldb_command'' [''help'', ''/tmp/out.txt''] [])
                = None"
    by (rule demo_runtime_prints)
       (simp add: input_line_def demo_runtime_def py_quote_def apostrophe_def)
  have p_out: "console_print demo_runtime
                 (output_line (dict_to_str demo_runtime (py_values ?d))) = None"
    by (rule demo_runtime_prints)
       (simp add: output_line_def demo_runtime_def py_quote_def show_pyval_def apostrophe_def
          py_values_def)
  have "run_lldb_command demo_runtime demo_lldb [''help'', ''/tmp/out.txt''] [] debugging_world
          = (Inr ?d, (snd (run_lldb_command_func demo_lldb ''help'' debugging_world))
                         \<lparr>fs := (fs debugging_world)(''/tmp/out.txt'' \<mapsto> File []),
                          open_files := []\<rparr>)"
    by (simp add: run_lldb_command_logged [OF fits] body logged_prints p_in p_out)
  with w show ?thesis
    by simp
qed

section \<open>The session invariant\<close>

text \<open>
  What holds of the world before a decorated call and after its function holds after the
  call, whether it returns or raises.
\<close>

lemma log_tool_call_preserves:
  assumes "P w" and "P (snd (func args kwargs w))"
  shows "P (snd (log_tool_call R func_name to_str func args kwargs w))"
  using assms
  by (cases "func args kwargs w")
     (auto simp add: log_tool_call_def split: option.splits sum.splits)

lemma call_0_preserves:
  assumes "P w" and "P (snd (body w))"
  shows "P (snd (call_0 (returning body) args kwargs w))"
  using assms
  by (cases "body w") (auto simp add: call_0_def returning_def split: sum.splits)

lemma call_2_returning_preserves:
  assumes "P w" and "\<And>a b. P (snd (body a b w))"
  shows "P (snd (call_2 params (\<lambda>a b. returning (body a b)) args kwargs w))"
proof (cases "bind_params params args kwargs")
  case (Inl e)
  with assms(1) show ?thesis by (simp add: call_2_def)
next
  case (Inr vs)
  show ?thesis
  proof (cases "\<exists>a b. vs = [a, b]")
    case True
    then obtain a b where "vs = [a, b]" by blast
    with Inr assms(2) [of a b] show ?thesis
      by (cases "body a b w") (simp add: call_2_def returning_def)
  next
    case False
    with Inr assms(1) show ?thesis
      by (auto simp add: call_2_def split: list.splits)
  qed
qed

lemma call_2_preserves:
  assumes "P w" and "\<And>a b. P (snd (body a b w))"
  shows "P (snd (call_2 params body args kwargs w))"
proof (cases "bind_params params args kwargs")
  case (Inl e)
  with assms(1) show ?thesis by (simp add: call_2_def)
next
  case (Inr vs)
  show ?thesis
  proof (cases "\<exists>a b. vs = [a, b]")
    case True
    then obtain a b where "vs = [a, b]" by blast
    with Inr assms(2) [of a b] show ?thesis
      by (simp add: call_2_def)
  next
    case False
    with Inr assms(1) show ?thesis
      by (auto simp add: call_2_def split: list.splits)
  qed
qed

lemma set_breakpoint_body_session:
  "debugger_state (snd (set_breakpoint_body L location condition w)) = debugger_state w"
proof -
  obtain cmd where "breakpoint_cmd location condition = Inr cmd"
    by (simp add: breakpoint_cmd_eq)
  then show ?thesis
    using run_lldb_command_func_session [of L cmd w]
    by (cases "run_lldb_command_func L cmd w") (simp add: set_breakpoint_body_def Let_def)
qed

lemma list_breakpoints_body_session:
  "debugger_state (snd (list_breakpoints_body L w)) = debugger_state w"
  using run_lldb_command_func_session [of L "''breakpoint list''" w]
  by (cases "run_lldb_command_func L ''breakpoint list'' w")
     (simp add: list_breakpoints_body_def Let_def)

lemma get_debugger_status_body_session:
  "debugger_state (snd (get_debugger_status_body L w)) = debugger_state w"
  by (simp add: get_debugger_status_body_def add_call_def Let_def)

lemma terminate_debugger_body_invariant:
  "session_invariant (debugger_state w)
     \<Longrightarrow> session_invariant (debugger_state (snd (terminate_debugger_body L w)))"
  by (simp add: terminate_debugger_body_def session_invariant_def initial_session_def
      add_call_def)

lemma initialize_debugger_body_invariant:
  "session_invariant (debugger_state w)
     \<Longrightarrow> session_invariant
           (debugger_state (snd (initialize_debugger_body L fname architecture w)))"
  by (simp add: initialize_debugger_body_def session_invariant_def add_call_def Let_def
      split: prod.splits)

text \<open>
  Every tool, however it is called and whether it returns or raises, preserves the
  invariant of the session.
\<close>

lemma session_invariant_preserved:
  assumes "session_invariant (debugger_state w)"
  shows "session_invariant (debugger_state (snd (initialize_debugger R L args kwargs w)))"
    and "session_invariant (debugger_state (snd (run_lldb_command R L args kwargs w)))"
    and "session_invariant (debugger_state (snd (get_debugger_status R L args kwargs w)))"
    and "session_invariant (debugger_state (snd (terminate_debugger R L args kwargs w)))"
    and "session_invariant (debugger_state (snd (set_breakpoint R L args kwargs w)))"
    and "session_invariant (debugger_state (snd (list_breakpoints R L args kwargs w)))"
proof -
  let ?P = "\<lambda>w. session_invariant (debugger_state w)"
  show "?P (snd (initialize_debugger R L args kwargs w))"
    unfolding initialize_debugger_def
    by (intro log_tool_call_preserves [where P = ?P]
          call_2_returning_preserves [where P = ?P] assms
          initialize_debugger_body_invariant)
  show "?P (snd (run_lldb_command R L args kwargs w))"
    unfolding run_lldb_command_def
    by (intro log_tool_call_preserves [where P = ?P]
          call_2_returning_preserves [where P = ?P] assms)
       (simp add: run_lldb_command_body_session assms)
  show "?P (snd (get_debugger_status R L args kwargs w))"
    unfolding get_debugger_status_def
    by (intro log_tool_call_preserves [where P = ?P] call_0_preserves [where P = ?P] assms)
       (simp add: get_debugger_status_body_session assms)
  show "?P (snd (terminate_debugger R L args kwargs w))"
    unfolding terminate_debugger_def
    by (intro log_tool_call_preserves [where P = ?P] call_0_preserves [where P = ?P] assms
          terminate_debugger_body_invariant)
  show "?P (snd (set_breakpoint R L args kwargs w))"
    unfolding set_breakpoint_def
    by (intro log_tool_call_preserves [where P = ?P] call_2_preserves [where P = ?P] assms)
       (simp add: set_breakpoint_body_session assms)
  show "?P (snd (list_breakpoints R L args kwargs w))"
    unfolding list_breakpoints_def
    by (intro log_tool_call_preserves [where P = ?P] call_0_preserves [where P = ?P] assms)
       (simp add: list_breakpoints_body_session assms)
qed

text \<open>
  When the body of \<^verbatim>\<open>initialize_debugger\<close> fails after the engine was created, it
  terminates the engine as its last operation and leaves the session dictionary as it
  was before the call.
\<close>

lemma initialize_debugger_rollback:
  assumes "os_path_exists w fname"
    and "on_IsValid L (calls w @ [SBDebugger_Create]) (on_Create L (calls w))"
    and "\<not> on_IsValid L (calls w @ [SBDebugger_Create, SetAsync False, GetCommandInterpreter])
             (on_GetCommandInterpreter L (calls w @ [SBDebugger_Create, SetAsync False]))
         \<or> \<not> on_IsValid L
               (calls w @ [SBDebugger_Create, SetAsync False, GetCommandInterpreter,
                           CreateTarget fname architecture])
               (fst (on_CreateTarget L
                       (calls w @ [SBDebugger_Create, SetAsync False, GetCommandInterpreter])
                       fname architecture))
         \<or> \<not> Success (snd (on_CreateTarget L
                (calls w @ [SBDebugger_Create, SetAsync False, GetCommandInterpreter])
                fname architecture))"
  shows "debugger_state (snd (initialize_debugger_body L fname architecture w))
           = debugger_state w
         \<and> last (calls (snd (initialize_debugger_body L fname architecture w)))
             = SBDebugger_Terminate"
  using assms
  by (auto simp add: initialize_debugger_body_def add_call_def Let_def split: prod.splits)

text \<open>
  Claim C5. The invariant is preserved and a failed first call leaves the session
  Uninitialized, as the two lemmas above say. But a call that fails to create its target
  on a session that an earlier call initialized terminates the engine and returns with
  the old handles still stored, where \<^verbatim>\<open>terminate_debugger\<close> resets the dictionary after
  the same operation. On an engine that, like LLDB, destroys the targets when it is
  terminated, the session is then neither Uninitialized nor usable: the status reports it
  initialized, and every command is answered with the message that LLDB is not
  initialized.
\<close>

theorem initialize_debugger_fails_on_initialized_session:
  "initialized no_target_lldb debugging_world
   \<and> session_invariant (debugger_state debugging_world)
   \<and> fst (initialize_debugger demo_runtime no_target_lldb [''/bin/ls'', ''arm64''] []
             debugging_world)
       = Inr ''Error: Failed to create target: unsupported architecture''
   \<and> last (calls (snd (initialize_debugger demo_runtime no_target_lldb
                         [''/bin/ls'', ''arm64''] [] debugging_world)))
       = SBDebugger_Terminate
   \<and> debugger_state (snd (initialize_debugger demo_runtime no_target_lldb
                             [''/bin/ls'', ''arm64''] [] debugging_world))
       = debugger_state debugging_world
   \<and> \<not> uninitialized (debugger_state (snd (initialize_debugger demo_runtime no_target_lldb
                                              [''/bin/ls'', ''arm64''] [] debugging_world)))
   \<and> initialized no_target_lldb
        (snd (initialize_debugger demo_runtime no_target_lldb [''/bin/ls'', ''arm64''] []
                debugging_world))
   \<and> fst (get_debugger_status demo_runtime no_target_lldb [] []
             (snd (initialize_debugger demo_runtime no_target_lldb [''/bin/ls'', ''arm64''] []
                     debugging_world)))
       = Inr [(''initialized'', PBool True),
              (''filename'', PStr ''/bin/ls''),
              (''arch'', PStr ''x86_64''),
              (''process_state'', PStr ''No process''),
              (''process_id'', PNone)]
   \<and> fst (run_lldb_command demo_runtime no_target_lldb [''help''] []
             (snd (initialize_debugger demo_runtime no_target_lldb [''/bin/ls'', ''arm64''] []
                     debugging_world)))
       = Inr [(''error'', ''LLDB not initialized. Call initialize_debugger() first.''),
              (''lldb_output'', []),
              (''program_stdout'', [])]"
proof -
  let ?msg = "''Error: Failed to create target: unsupported architecture''"
  let ?after = "debugging_world
       \<lparr>calls := [SBDebugger_Create, SetAsync False, GetCommandInterpreter,
                  CreateTarget ''/bin/ls'' ''x86_64'', SBDebugger_Create, SetAsync False,
                  GetCommandInterpreter, CreateTarget ''/bin/ls'' ''arm64'',
                  SBDebugger_Terminate]\<rparr>"
  have a: "initialized no_target_lldb debugging_world"
    by (simp add: initialized_def truthy_def debugging_world_def no_target_lldb_def)
  have inv: "session_invariant (debugger_state debugging_world)"
    by (simp add: session_invariant_def debugging_world_def)
  have fits: "bind_params [(''filename'', None), (''arch'', Some ''x86_64'')]
                [''/bin/ls'', ''arm64''] [] = Inr [''/bin/ls'', ''arm64'']"
    by (simp add: has_key_def)
  have body: "initialize_debugger_body no_target_lldb ''/bin/ls'' ''arm64'' debugging_world
                = (?msg, ?after)"
    by (simp add: initialize_debugger_body_def no_target_lldb_def demo_lldb_def
        debugging_world_def os_path_exists_def add_call_def fmt_opt_def Let_def)
  have p_in: "console_print demo_runtime
                (input_line demo_runtime ''initialize_debugger'' [''/bin/ls'', ''arm64''] [])
                = None"
    by (rule demo_runtime_prints)
       (simp add: input_line_def demo_runtime_def py_quote_def apostrophe_def)
  have p_out: "console_print demo_runtime (output_line ?msg) = None"
    by (rule demo_runtime_prints) (simp add: output_line_def)
  have tool: "initialize_debugger demo_runtime no_target_lldb [''/bin/ls'', ''arm64''] []
                debugging_world = (Inr ?msg, ?after)"
    by (simp add: initialize_debugger_logged [OF fits] body logged_prints p_in p_out)
  have state: "debugger_state ?after = debugger_state debugging_world"
    by simp
  have not_fresh: "\<not> uninitialized (debugger_state ?after)"
    by (simp add: uninitialized_def initial_session_def debugging_world_def)
  have still: "initialized no_target_lldb ?after"
    by (simp add: initialized_def truthy_def debugging_world_def no_target_lldb_def)
  have dead: "\<not> truthy no_target_lldb (calls ?after) (target (debugger_state ?after))"
    by (simp add: truthy_def debugging_world_def no_target_lldb_def)
  let ?st = "[(''initialized'', PBool True),
              (''filename'', PStr ''/bin/ls''),
              (''arch'', PStr ''x86_64''),
              (''process_state'', PStr ''No process''),
              (''process_id'', PNone)]"
  let ?ni = "[(''error'', ''LLDB not initialized. Call initialize_debugger() first.''),
              (''lldb_output'', []),
              (''program_stdout'', [])]"
  have "filename (debugger_state ?after) = Some ''/bin/ls''"
    "arch (debugger_state ?after) = Some ''x86_64''"
    by (simp_all add: debugging_world_def)
  with still dead have st_body: "fst (get_debugger_status_body no_target_lldb ?after) = ?st"
    by (simp add: get_debugger_status_without_process initialized_def opt_str_def)
  have p_st: "console_print demo_runtime (input_line demo_runtime ''get_debugger_status'' [] [])
                = None"
    "console_print demo_runtime (output_line (dict_to_str demo_runtime ?st)) = None"
    by (rule demo_runtime_prints,
        simp add: input_line_def output_line_def demo_runtime_def py_quote_def show_pyval_def
          apostrophe_def)+
  have status: "fst (get_debugger_status demo_runtime no_target_lldb [] [] ?after) = Inr ?st"
    by (simp add: get_debugger_status_logged st_body logged_prints p_st)
  have fits_run: "bind_params [(''command'', None), (''output_filename'', Some [])]
                    [''help''] [] = Inr [''help'', []]"
    by (simp add: has_key_def)
  have run_body: "fst (run_lldb_command_body no_target_lldb ''help'' [] ?after) = ?ni"
    using dead
    by (simp add: run_lldb_command_no_file run_lldb_command_func_result
        not_initialized_message_def)
  have p_run: "console_print demo_runtime
                 (input_line demo_runtime ''run_lldb_command'' [''help''] []) = None"
    "console_print demo_runtime (output_line (dict_to_str demo_runtime (py_values ?ni))) = None"
    by (rule demo_runtime_prints,
        simp add: input_line_def output_line_def demo_runtime_def py_quote_def show_pyval_def
          apostrophe_def py_values_def)+
  have command: "fst (run_lldb_command demo_runtime no_target_lldb [''help''] [] ?after)
                   = Inr ?ni"
    by (simp add: run_lldb_command_logged [OF fits_run] run_body logged_prints p_run)
  from a inv state not_fresh still status command show ?thesis
    by (simp add: tool)
qed

section \<open>Tools on an Uninitialized session\<close>

text \<open>
  Claim C2, as stated, gives every tool other than \<^verbatim>\<open>initialize_debugger\<close> a result of the
  NotInitialized class and has none of them raise. On an Uninitialized session three of
  them return something else: \<^verbatim>\<open>list_breakpoints\<close> a record of two empty outputs with
  neither an error nor a success field, \<^verbatim>\<open>get_debugger_status\<close> its status record,
  \<^verbatim>\<open>terminate_debugger\<close> a plain message. And a tool raises when the console refuses a
  line of the log, as it does for the location \<^verbatim>\<open>[/a]\<close>.
\<close>

theorem uninitialized_results_counterexample:
  "uninitialized (debugger_state fresh_world)
   \<and> fst (list_breakpoints demo_runtime demo_lldb [] [] fresh_world)
       = Inr [(''lldb_output'', []), (''program_stdout'', [])]
   \<and> \<not> NotInitialized_class
          (Record (py_values [(''lldb_output'', []), (''program_stdout'', [])]))
   \<and> fst (get_debugger_status demo_runtime demo_lldb [] [] fresh_world)
       = Inr [(''initialized'', PBool False), (''filename'', PNone), (''arch'', PNone),
              (''process_state'', PStr ''No debugger initialized'')]
   \<and> \<not> NotInitialized_class
          (Record [(''initialized'', PBool False), (''filename'', PNone), (''arch'', PNone),
                   (''process_state'', PStr ''No debugger initialized'')])
   \<and> fst (terminate_debugger demo_runtime demo_lldb [] [] fresh_world)
       = Inr ''No active debugger session to terminate.''
   \<and> \<not> NotInitialized_class (Message ''No active debugger session to terminate.'')
   \<and> raises_MarkupError (fst (set_breakpoint demo_runtime demo_lldb [''[/a]''] [] fresh_world))"
proof -
  let ?l = "[(''lldb_output'', []), (''program_stdout'', [])]"
  let ?s = "[(''initialized'', PBool False), (''filename'', PNone), (''arch'', PNone),
             (''process_state'', PStr ''No debugger initialized'')]"
  let ?t = "''No active debugger session to terminate.''"
  have fresh: "uninitialized (debugger_state fresh_world)"
    by (simp add: uninitialized_def fresh_world_def)
  have none: "\<not> truthy demo_lldb (calls fresh_world) (debugger (debugger_state fresh_world))"
    "\<not> truthy demo_lldb (calls fresh_world) (interpreter (debugger_state fresh_world))"
    by (simp_all add: fresh_world_def initial_session_def truthy_def)
  have l_body: "list_breakpoints_body demo_lldb fresh_world = (?l, fresh_world)"
    using none by (simp add: list_breakpoints_body_def run_lldb_command_func_def dict_get_def)
  have s_body: "get_debugger_status_body demo_lldb fresh_world = (?s, fresh_world)"
    using none by (simp add: get_debugger_status_uninitialized)
  have t_body: "terminate_debugger_body demo_lldb fresh_world = (?t, fresh_world)"
    using none by (simp add: terminate_debugger_body_def)
  have p_in: "console_print demo_runtime (input_line demo_runtime ''list_breakpoints'' [] [])
                = None"
    "console_print demo_runtime (input_line demo_runtime ''get_debugger_status'' [] []) = None"
    "console_print demo_runtime (input_line demo_runtime ''terminate_debugger'' [] []) = None"
    by (rule demo_runtime_prints,
        simp add: input_line_def demo_runtime_def apostrophe_def)+
  have p_out: "console_print demo_runtime (output_line (dict_to_str demo_runtime (py_values ?l)))
                 = None"
    "console_print demo_runtime (output_line (dict_to_str demo_runtime ?s)) = None"
    "console_print demo_runtime (output_line ?t) = None"
    by (rule demo_runtime_prints,
        simp add: output_line_def demo_runtime_def py_quote_def show_pyval_def apostrophe_def
          py_values_def)+
  have l: "fst (list_breakpoints demo_runtime demo_lldb [] [] fresh_world) = Inr ?l"
    by (simp add: list_breakpoints_logged l_body logged_prints p_in p_out)
  have s: "fst (get_debugger_status demo_runtime demo_lldb [] [] fresh_world) = Inr ?s"
    by (simp add: get_debugger_status_logged s_body logged_prints p_in p_out)
  have t: "fst (terminate_debugger demo_runtime demo_lldb [] [] fresh_world) = Inr ?t"
    by (simp add: terminate_debugger_logged t_body logged_prints p_in p_out)
  have classes: "\<not> NotInitialized_class (Record (py_values ?l))"
    "\<not> NotInitialized_class (Record ?s)"
    "\<not> NotInitialized_class (Message ?t)"
    by (simp_all add: NotInitialized_class_def py_values_def has_key_def)
  have "str_contains ''[/a]'' (input_line demo_runtime ''set_breakpoint'' [''[/a]''] [])"
    by (simp add: input_line_def demo_runtime_def py_quote_def apostrophe_def)
  then obtain msg where
    "console_print demo_runtime (input_line demo_runtime ''set_breakpoint'' [''[/a]''] [])
       = Some msg"
    using demo_runtime_refuses by blast
  then have "fst (set_breakpoint demo_runtime demo_lldb [''[/a]''] [] fresh_world)
               = Inl (MarkupError msg)"
    by (simp add: set_breakpoint_def log_tool_call_def)
  then have r: "raises_MarkupError
                  (fst (set_breakpoint demo_runtime demo_lldb [''[/a]''] [] fresh_world))"
    by (simp add: raises_MarkupError_def)
  from fresh l s t classes r show ?thesis
    by simp
qed

text \<open>
  Claim C2, amended. On an Uninitialized session every tool other than
  \<^verbatim>\<open>initialize_debugger\<close>, called with arguments that fit its parameters, is its body,
  logged, and the body neither raises nor touches the session or the engine.
  \<^verbatim>\<open>run_lldb_command\<close> gives the record with the \<^verbatim>\<open>error\<close> field holding the fixed message
  and two empty output fields (when no file is named, or when the named file opens; when
  it does not open, the \<^verbatim>\<open>error\<close> field holds the text of the I/O error).
  \<^verbatim>\<open>set_breakpoint\<close> gives \<^verbatim>\<open>success\<close> false, the same fixed message and an empty output.
  The output fields of \<^verbatim>\<open>list_breakpoints\<close> are empty. \<^verbatim>\<open>get_debugger_status\<close> gives
  \<^verbatim>\<open>initialized\<close> false with the fixed state string \<^verbatim>\<open>No debugger initialized\<close>, and
  \<^verbatim>\<open>terminate_debugger\<close> gives its no-op message. The tool returns that result whenever
  the console prints the two lines of the log.
\<close>

theorem uninitialized_results:
  assumes "uninitialized (debugger_state w)"
    and "bind_params [(''command'', None), (''output_filename'', Some [])] args kwargs
           = Inr [command, output_filename]"
    and "bind_params [(''location'', None), (''condition'', Some [])] args' kwargs'
           = Inr [location, condition]"
  shows "(output_filename = [] \<or> unwritable w output_filename = None \<longrightarrow>
            (\<exists>w1. run_lldb_command R L args kwargs w
                     = logged R ''run_lldb_command'' args kwargs w
                         (dict_to_str R (py_values
                            [(''error'', not_initialized_message),
                             (''lldb_output'', []),
                             (''program_stdout'', [])]))
                         [(''error'', not_initialized_message),
                          (''lldb_output'', []),
                          (''program_stdout'', [])] w1
                  \<and> debugger_state w1 = debugger_state w
                  \<and> calls w1 = calls w
                  \<and> (output_filename = [] \<longrightarrow> w1 = w)))
         \<and> (output_filename \<noteq> [] \<and> unwritable w output_filename = Some msg \<longrightarrow>
              run_lldb_command R L args kwargs w
                = logged R ''run_lldb_command'' args kwargs w
                    (dict_to_str R (py_values [(''error'', msg)])) [(''error'', msg)] w)
         \<and> set_breakpoint R L args' kwargs' w
             = logged R ''set_breakpoint'' args' kwargs' w
                 (dict_to_str R [(''success'', PBool False),
                                 (''message'', PStr not_initialized_message),
                                 (''lldb_output'', PStr [])])
                 [(''success'', PBool False),
                  (''message'', PStr not_initialized_message),
                  (''lldb_output'', PStr [])] w
         \<and> (\<exists>d. list_breakpoints R L [] [] w
                   = logged R ''list_breakpoints'' [] [] w (dict_to_str R (py_values d)) d w
                \<and> map_of d ''lldb_output'' = Some []
                \<and> map_of d ''program_stdout'' = Some [])
         \<and> get_debugger_status R L [] [] w
             = logged R ''get_debugger_status'' [] [] w
                 (dict_to_str R [(''initialized'', PBool False),
                                 (''filename'', PNone),
                                 (''arch'', PNone),
                                 (''process_state'', PStr ''No debugger initialized'')])
                 [(''initialized'', PBool False),
                  (''filename'', PNone),
                  (''arch'', PNone),
                  (''process_state'', PStr ''No debugger initialized'')] w
         \<and> terminate_debugger R L [] [] w
             = logged R ''terminate_debugger'' [] [] w
                 ''No active debugger session to terminate.''
                 ''No active debugger session to terminate.'' w
         \<and> (\<forall>func_name a k output_str result w1.
               console_print R (input_line R func_name a k) = None
               \<and> console_print R (output_line output_str) = None
               \<longrightarrow> logged R func_name a k w output_str result w1 = (Inr result, w1))
         \<and> not_initialized_message = ''LLDB not initialized. Call initialize_debugger() first.''"
proof -
  let ?ni = "[(''error'', not_initialized_message),
              (''lldb_output'', []),
              (''program_stdout'', [])]"
  from assms(1) have none: "\<not> truthy L (calls w) (debugger (debugger_state w))"
    "\<not> truthy L (calls w) (interpreter (debugger_state w))"
    by (simp_all add: uninitialized_def initial_session_def truthy_def)
  have unset: "\<not> truthy L (calls v) (interpreter (debugger_state v))"
    if "debugger_state v = debugger_state w" for v
    using that assms(1) by (simp add: uninitialized_def initial_session_def truthy_def)
  have func: "run_lldb_command_func L c v = (?ni, v)"
    if "debugger_state v = debugger_state w" for c v
    using unset [OF that] by (simp add: run_lldb_command_func_def)
  have run_plain: "output_filename = [] \<Longrightarrow>
                     run_lldb_command_body L command output_filename w = (?ni, w)"
    by (simp add: run_lldb_command_no_file func)
  have run_file: "output_filename \<noteq> [] \<Longrightarrow> unwritable w output_filename = None \<Longrightarrow>
                    run_lldb_command_body L command output_filename w
                      = (?ni, w\<lparr>fs := (fs w)(output_filename \<mapsto> File []),
                                open_files := open_files w\<rparr>)"
    by (simp add: run_lldb_command_with_file func)
  have run_ok: "output_filename = [] \<or> unwritable w output_filename = None \<longrightarrow>
            (\<exists>w1. run_lldb_command R L args kwargs w
                     = logged R ''run_lldb_command'' args kwargs w
                         (dict_to_str R (py_values ?ni)) ?ni w1
                  \<and> debugger_state w1 = debugger_state w
                  \<and> calls w1 = calls w
                  \<and> (output_filename = [] \<longrightarrow> w1 = w))"
  proof (cases "output_filename = []")
    case True
    with run_plain show ?thesis
      by (simp add: run_lldb_command_logged [OF assms(2)])
  next
    case False
    show ?thesis
    proof
      assume "output_filename = [] \<or> unwritable w output_filename = None"
      with False have "unwritable w output_filename = None" by simp
      with False run_file
      have "run_lldb_command R L args kwargs w
              = logged R ''run_lldb_command'' args kwargs w
                  (dict_to_str R (py_values ?ni)) ?ni
                  (w\<lparr>fs := (fs w)(output_filename \<mapsto> File []),
                     open_files := open_files w\<rparr>)"
        by (simp add: run_lldb_command_logged [OF assms(2)])
      with False show "\<exists>w1. run_lldb_command R L args kwargs w
                     = logged R ''run_lldb_command'' args kwargs w
                         (dict_to_str R (py_values ?ni)) ?ni w1
                  \<and> debugger_state w1 = debugger_state w
                  \<and> calls w1 = calls w
                  \<and> (output_filename = [] \<longrightarrow> w1 = w)"
        by (intro exI [of _ "w\<lparr>fs := (fs w)(output_filename \<mapsto> File []),
                               open_files := open_files w\<rparr>"]) simp
    qed
  qed
  have run_fail: "output_filename \<noteq> [] \<and> unwritable w output_filename = Some msg \<longrightarrow>
              run_lldb_command R L args kwargs w
                = logged R ''run_lldb_command'' args kwargs w
                    (dict_to_str R (py_values [(''error'', msg)])) [(''error'', msg)] w"
    by (simp add: run_lldb_command_logged [OF assms(2)] run_lldb_command_open_fails)
  have "set_breakpoint_body L location condition w
             = (Inr [(''success'', PBool False),
                     (''message'', PStr not_initialized_message),
                     (''lldb_output'', PStr [])], w)"
    using none by (simp add: set_breakpoint_body_def)
  then have brk: "set_breakpoint R L args' kwargs' w
             = logged R ''set_breakpoint'' args' kwargs' w
                 (dict_to_str R [(''success'', PBool False),
                                 (''message'', PStr not_initialized_message),
                                 (''lldb_output'', PStr [])])
                 [(''success'', PBool False),
                  (''message'', PStr not_initialized_message),
                  (''lldb_output'', PStr [])] w"
    by (rule set_breakpoint_logged [OF assms(3)])
  have "list_breakpoints_body L w = ([(''lldb_output'', []), (''program_stdout'', [])], w)"
    by (simp add: list_breakpoints_body_def func dict_get_def)
  then have "list_breakpoints R L [] [] w
               = logged R ''list_breakpoints'' [] [] w
                   (dict_to_str R (py_values [(''lldb_output'', []), (''program_stdout'', [])]))
                   [(''lldb_output'', []), (''program_stdout'', [])] w
             \<and> map_of [(''lldb_output'', []), (''program_stdout'', [])] ''lldb_output''
                 = Some ([] :: string)
             \<and> map_of [(''lldb_output'', []), (''program_stdout'', [])] ''program_stdout''
                 = Some ([] :: string)"
    by (simp add: list_breakpoints_logged)
  then have lst: "\<exists>d. list_breakpoints R L [] [] w
                   = logged R ''list_breakpoints'' [] [] w (dict_to_str R (py_values d)) d w
                \<and> map_of d ''lldb_output'' = Some []
                \<and> map_of d ''program_stdout'' = Some []"
    by blast
  have status: "get_debugger_status R L [] [] w
             = logged R ''get_debugger_status'' [] [] w
                 (dict_to_str R [(''initialized'', PBool False),
                                 (''filename'', PNone),
                                 (''arch'', PNone),
                                 (''process_state'', PStr ''No debugger initialized'')])
                 [(''initialized'', PBool False),
                  (''filename'', PNone),
                  (''arch'', PNone),
                  (''process_state'', PStr ''No debugger initialized'')] w"
    using none by (simp add: get_debugger_status_logged get_debugger_status_uninitialized)
  have "terminate_debugger_body L w = (''No active debugger session to terminate.'', w)"
    using none by (simp add: terminate_debugger_body_def)
  then have quit: "terminate_debugger R L [] [] w
             = logged R ''terminate_debugger'' [] [] w
                 ''No active debugger session to terminate.''
                 ''No active debugger session to terminate.'' w"
    by (simp add: terminate_debugger_logged)
  have prints: "\<forall>func_name a k output_str result w1.
               console_print R (input_line R func_name a k) = None
               \<and> console_print R (output_line output_str) = None
               \<longrightarrow> logged R func_name a k w output_str result w1 = (Inr result, w1)"
    by (simp add: logged_prints)
  have wording: "not_initialized_message = ''LLDB not initialized. Call initialize_debugger() first.''"
    by (simp add: not_initialized_message_def)
  from run_ok run_fail brk lst status quit prints wording show ?thesis
    by (intro conjI)
qed

theorem uninitialized_results_witness:
  "uninitialized (debugger_state fresh_world)
   \<and> bind_params [(''command'', None), (''output_filename'', Some [])] [''help''] []
       = Inr [''help'', []]
   \<and> bind_params [(''location'', None), (''condition'', Some [])] [] [(''location'', ''main'')]
       = Inr [''main'', []]
   \<and> run_lldb_command demo_runtime demo_lldb [''help''] [] fresh_world
       = (Inr [(''error'', ''LLDB not initialized. Call initialize_debugger() first.''),
               (''lldb_output'', []),
               (''program_stdout'', [])], fresh_world)
   \<and> set_breakpoint demo_runtime demo_lldb [] [(''location'', ''main'')] fresh_world
       = (Inr [(''success'', PBool False),
               (''message'', PStr ''LLDB not initialized. Call initialize_debugger() first.''),
               (''lldb_output'', PStr [])], fresh_world)
   \<and> terminate_debugger demo_runtime demo_lldb [] [] fresh_world
       = (Inr ''No active debugger session to terminate.'', fresh_world)
   \<and> bind_params [(''command'', None), (''output_filename'', Some [])]
         [''help'', ''/missing/out.txt''] [] = Inr [''help'', ''/missing/out.txt'']
   \<and> unwritable fresh_world ''/missing/out.txt'' = Some missing_dir_message
   \<and> run_lldb_command demo_runtime demo_lldb [''help'', ''/missing/out.txt''] [] fresh_world
       = (Inr [(''error'', missing_dir_message)], fresh_world)"
proof -
  let ?ni = "[(''error'', ''LLDB not initialized. Call initialize_debugger() first.''),
              (''lldb_output'', []),
              (''program_stdout'', [])]"
  let ?nb = "[(''success'', PBool False),
              (''message'', PStr ''LLDB not initialized. Call initialize_debugger() first.''),
              (''lldb_output'', PStr [])]"
  have a: "uninitialized (debugger_state fresh_world)"
    by (simp add: uninitialized_def fresh_world_def)
  have fits: "bind_params [(''command'', None), (''output_filename'', Some [])] [''help''] []
                = Inr [''help'', []]"
    "bind_params [(''location'', None), (''condition'', Some [])] [] [(''location'', ''main'')]
       = Inr [''main'', []]"
    by (simp_all add: has_key_def)
  have p_in: "console_print demo_runtime (input_line demo_runtime ''run_lldb_command'' [''help''] [])
                = None"
    "console_print demo_runtime
       (input_line demo_runtime ''set_breakpoint'' [] [(''location'', ''main'')]) = None"
    "console_print demo_runtime (input_line demo_runtime ''terminate_debugger'' [] []) = None"
    by (rule demo_runtime_prints,
        simp add: input_line_def demo_runtime_def py_quote_def apostrophe_def)+
  have p_out: "console_print demo_runtime (output_line (dict_to_str demo_runtime (py_values ?ni)))
                 = None"
    "console_print demo_runtime (output_line (dict_to_str demo_runtime ?nb)) = None"
    "console_print demo_runtime (output_line ''No active debugger session to terminate.'')
       = None"
    by (rule demo_runtime_prints,
        simp add: output_line_def demo_runtime_def py_quote_def show_pyval_def apostrophe_def
          py_values_def)+
  note facts = uninitialized_results [OF a fits, of demo_runtime demo_lldb]
  from facts have msg: "not_initialized_message
                          = ''LLDB not initialized. Call initialize_debugger() first.''"
    by blast
  from facts have "\<exists>w1. run_lldb_command demo_runtime demo_lldb [''help''] [] fresh_world
                     = logged demo_runtime ''run_lldb_command'' [''help''] [] fresh_world
                         (dict_to_str demo_runtime (py_values
                            [(''error'', not_initialized_message),
                             (''lldb_output'', []),
                             (''program_stdout'', [])]))
                         [(''error'', not_initialized_message),
                          (''lldb_output'', []),
                          (''program_stdout'', [])] w1
                  \<and> w1 = fresh_world"
    by blast
  then have run: "run_lldb_command demo_runtime demo_lldb [''help''] [] fresh_world
                    = (Inr ?ni, fresh_world)"
    using p_in p_out by (auto simp add: msg logged_prints)
  from facts have "set_breakpoint demo_runtime demo_lldb [] [(''location'', ''main'')] fresh_world
             = logged demo_runtime ''set_breakpoint'' [] [(''location'', ''main'')] fresh_world
                 (dict_to_str demo_runtime [(''success'', PBool False),
                                 (''message'', PStr not_initialized_message),
                                 (''lldb_output'', PStr [])])
                 [(''success'', PBool False),
                  (''message'', PStr not_initialized_message),
                  (''lldb_output'', PStr [])] fresh_world"
    by blast
  then have brk: "set_breakpoint demo_runtime demo_lldb [] [(''location'', ''main'')] fresh_world
                    = (Inr ?nb, fresh_world)"
    using p_in p_out by (simp add: msg logged_prints)
  from facts have "terminate_debugger demo_runtime demo_lldb [] [] fresh_world
             = logged demo_runtime ''terminate_debugger'' [] [] fresh_world
                 ''No active debugger session to terminate.''
                 ''No active debugger session to terminate.'' fresh_world"
    by blast
  then have quit: "terminate_debugger demo_runtime demo_lldb [] [] fresh_world
                     = (Inr ''No active debugger session to terminate.'', fresh_world)"
    using p_in p_out by (simp add: logged_prints)
  have fits_file: "bind_params [(''command'', None), (''output_filename'', Some [])]
                     [''help'', ''/missing/out.txt''] [] = Inr [''help'', ''/missing/out.txt'']"
    by (simp add: has_key_def)
  have closed: "unwritable fresh_world ''/missing/out.txt'' = Some missing_dir_message"
    by (simp add: fresh_world_def)
  have p_file: "console_print demo_runtime
                  (input_line demo_runtime ''run_lldb_command'' [''help'', ''/missing/out.txt''] [])
                  = None"
    "console_print demo_runtime
       (output_line (dict_to_str demo_runtime (py_values [(''error'', missing_dir_message)])))
       = None"
    by (rule demo_runtime_prints,
        simp add: input_line_def output_line_def demo_runtime_def py_quote_def show_pyval_def
          apostrophe_def py_values_def missing_dir_message_def)+
  from uninitialized_results [OF a fits_file fits(2),
      where R = demo_runtime and L = demo_lldb and msg = missing_dir_message]
  have "''/missing/out.txt'' \<noteq> []
          \<and> unwritable fresh_world ''/missing/out.txt'' = Some missing_dir_message
        \<longrightarrow> run_lldb_command demo_runtime demo_lldb [''help'', ''/missing/out.txt''] []
              fresh_world
          = logged demo_runtime ''run_lldb_command'' [''help'', ''/missing/out.txt''] []
              fresh_world
              (dict_to_str demo_runtime (py_values [(''error'', missing_dir_message)]))
              [(''error'', missing_dir_message)] fresh_world"
    by blast
  with closed
  have "run_lldb_command demo_runtime demo_lldb [''help'', ''/missing/out.txt''] [] fresh_world
          = logged demo_runtime ''run_lldb_command'' [''help'', ''/missing/out.txt''] []
              fresh_world
              (dict_to_str demo_runtime (py_values [(''error'', missing_dir_message)]))
              [(''error'', missing_dir_message)] fresh_world"
    by simp
  then have refused: "run_lldb_command demo_runtime demo_lldb [''help'', ''/missing/out.txt''] []
                     fresh_world = (Inr [(''error'', missing_dir_message)], fresh_world)"
    using p_file by (simp add: logged_prints)
  from a fits run brk quit fits_file closed refused show ?thesis
    by simp
qed

end
